theory Spec2Isabelle
  imports Main "HOL-Library.Sublist"
begin

section \<open>Python values\<close>

text \<open>
  Both scripts work on untyped data: the property list that \<open>plistlib.load\<close> returns, the
  dictionaries that become the recipe store, and the JSON document read back from it.
  One type of values covers them. A dictionary is an association list in insertion
  order; \<open>dict_get\<close> reads the first binding of a key. Strings are \<open>char\<close> lists and stand
  for the UTF-8 text the scripts read and write. Reals, dates, binary data and UIDs of a
  property list, and the reals of JSON, are left out: none of the fields the scripts read
  holds one in Safari's file or in a record of the fetcher.
\<close>

datatype pyval =
    VNone
  | VBool bool
  | VInt int
  | VStr string
  | VList "pyval list"
  | VDict "(string \<times> pyval) list"

text \<open>An exception: its class and the text \<open>str(e)\<close> gives.\<close>

datatype exn = Exn (exn_class: string) (exn_text: string)

text \<open>Python's truth value of an object, as \<open>if x\<close>, \<open>not x\<close> and \<open>x or y\<close> test it.\<close>

fun truthy :: "pyval \<Rightarrow> bool" where
  "truthy VNone = False"
| "truthy (VBool b) = b"
| "truthy (VInt n) = (n \<noteq> 0)"
| "truthy (VStr s) = (s \<noteq> [])"
| "truthy (VList xs) = (xs \<noteq> [])"
| "truthy (VDict d) = (d \<noteq> [])"

definition py_or :: "pyval \<Rightarrow> pyval \<Rightarrow> pyval" where
  "py_or a b = (if truthy a then a else b)"

text \<open>\<open>d.get(k, default)\<close>, and \<open>d.get(k)\<close> with the default \<open>None\<close>.\<close>

definition dict_get :: "(string \<times> pyval) list \<Rightarrow> string \<Rightarrow> pyval \<Rightarrow> pyval" where
  "dict_get d k dflt = (case map_of d k of Some v \<Rightarrow> v | None \<Rightarrow> dflt)"

fun type_name :: "pyval \<Rightarrow> string" where
  "type_name VNone = ''NoneType''"
| "type_name (VBool b) = ''bool''"
| "type_name (VInt n) = ''int''"
| "type_name (VStr s) = ''str''"
| "type_name (VList xs) = ''list''"
| "type_name (VDict d) = ''dict''"

definition py_quote :: "string \<Rightarrow> string" where
  "py_quote s = [CHR 0x27] @ s @ [CHR 0x27]"

text \<open>
  \<open>v.get(k, default)\<close> on any object: only a dictionary has the method, anything else
  raises \<open>AttributeError\<close>.
\<close>

definition py_get :: "pyval \<Rightarrow> string \<Rightarrow> pyval \<Rightarrow> exn + pyval" where
  "py_get v k dflt =
     (case v of
        VDict d \<Rightarrow> Inr (dict_get d k dflt)
      | _ \<Rightarrow> Inl (Exn ''AttributeError''
                 (py_quote (type_name v) @ '' object has no attribute '' @ py_quote ''get'')))"

text \<open>
  The characters of a text: in UTF-8 a character is a leading byte and the continuation
  bytes (\<open>0x80\<close> to \<open>0xBF\<close>) that follow it. Python indexes, slices and iterates a string
  by character.
\<close>

definition continuation_byte :: "char \<Rightarrow> bool" where
  "continuation_byte c = (128 \<le> (of_char c :: nat) \<and> (of_char c :: nat) < 192)"

function utf8_chars :: "string \<Rightarrow> string list" where
  "utf8_chars [] = []"
| "utf8_chars (c # cs) =
     (c # takeWhile continuation_byte cs) # utf8_chars (dropWhile continuation_byte cs)"
  by pat_completeness auto
termination
  by (relation "measure length") (auto simp: less_Suc_eq_le length_dropWhile_le)

declare utf8_chars.simps [simp del]


text \<open>
  The items a \<open>for\<close> loop draws from an object: the elements of a list, the keys of a
  dictionary, the characters of a string; the other objects are not iterable.
\<close>

fun py_iter :: "pyval \<Rightarrow> exn + pyval list" where
  "py_iter (VList xs) = Inr xs"
| "py_iter (VDict d) = Inr (map (\<lambda>kv. VStr (fst kv)) d)"
| "py_iter (VStr s) = Inr (map VStr (utf8_chars s))"
| "py_iter v = Inl (Exn ''TypeError'' (py_quote (type_name v) @ '' object is not iterable''))"

section \<open>Bookmark extractor (scrape\_recipes.py)\<close>

definition reading_list_title :: string where
  "reading_list_title = ''com.apple.ReadingList''"



text \<open>
  The bookmark file as the script meets it: absent, present but failing in \<open>open\<close> or
  \<open>plistlib.load\<close> with an exception, or loaded.
\<close>

datatype bookmarks_file = Missing | Unreadable exn | Loaded pyval




subsection \<open>The bookmark hierarchy, for stating what the search finds\<close>










text \<open>A folder whose \<open>Title\<close> is the sentinel, and the \<open>Children\<close> entry of a folder.\<close>

fun is_reading_list :: "pyval \<Rightarrow> bool" where
  "is_reading_list (VDict d) = (dict_get d ''Title'' VNone = VStr reading_list_title)"
| "is_reading_list v = False"







text \<open>
  Sample bookmark files: an entry of a Reading List; an empty Reading List before one with
  an entry; a folder whose \<open>Children\<close> is a number, alone and before a Reading List; a file
  with no Reading List; and folders nested one in the other around an item.
\<close>

definition reading_list_entry :: pyval where
  "reading_list_entry =
     VDict [(''URLString'', VStr ''https://example.com/pasta''),
            (''URIDictionary'', VDict [(''title'', VStr ''Pasta'')])]"

definition reading_list_folder :: pyval where
  "reading_list_folder =
     VDict [(''Title'', VStr ''com.apple.ReadingList''),
            (''Children'', VList [reading_list_entry])]"






section \<open>Recipe fetcher (scrape\_recipes.py)\<close>

text \<open>Sequencing of steps that may raise: the first exception ends the sequence.\<close>

definition bind_exn :: "exn + 'a \<Rightarrow> ('a \<Rightarrow> exn + 'b) \<Rightarrow> exn + 'b" where
  "bind_exn m f = (case m of Inl e \<Rightarrow> Inl e | Inr x \<Rightarrow> f x)"

text \<open>
  \<open>v[key]\<close> with a string key: the binding of a dictionary, \<open>KeyError\<close> without one,
  \<open>TypeError\<close> on any other object.
\<close>

definition py_item :: "pyval \<Rightarrow> string \<Rightarrow> exn + pyval" where
  "py_item v k =
     (case v of
        VDict d \<Rightarrow>
          (case map_of d k of
             Some x \<Rightarrow> Inr x
           | None \<Rightarrow> Inl (Exn ''KeyError'' (py_quote k)))
      | VStr s \<Rightarrow> Inl (Exn ''TypeError'' ''string indices must be integers'')
      | VList xs \<Rightarrow>
          Inl (Exn ''TypeError'' ''list indices must be integers or slices, not str'')
      | _ \<Rightarrow> Inl (Exn ''TypeError'' (py_quote (type_name v) @ '' object is not subscriptable'')))"

text \<open>\<open>url[:60]\<close>, the slice the progress line prints.\<close>

definition py_slice_60 :: "pyval \<Rightarrow> exn + pyval" where
  "py_slice_60 v =
     (case v of
        VStr s \<Rightarrow> Inr (VStr (concat (take 60 (utf8_chars s))))
      | VList xs \<Rightarrow> Inr (VList (take 60 xs))
      | VDict d \<Rightarrow> Inl (Exn ''TypeError'' (''unhashable type: '' @ py_quote ''slice''))
      | _ \<Rightarrow> Inl (Exn ''TypeError'' (py_quote (type_name v) @ '' object is not subscriptable'')))"

text \<open>
  The world outside the script, as parameters. A \<open>response\<close> is what \<open>requests.get\<close>
  returns: its body and the exception \<open>raise_for_status\<close> raises, if any. A \<open>scraper\<close> is
  the object \<open>scrape_html\<close> returns: what each of its methods returns or raises, and for
  the three optional methods whether the object has the attribute at all. A \<open>web\<close> gives
  the outcome of \<open>requests.get\<close>, of \<open>scrape_html\<close> and of \<open>urlparse(url).netloc\<close>; the last
  one can raise too (the Python documentation of \<open>urlparse\<close>: unmatched square brackets in
  the netloc raise \<open>ValueError\<close>).
\<close>

record response =
  status_error :: "exn option"
  content :: string

record scraper =
  scraper_title :: "exn + pyval"
  scraper_host :: "exn + pyval"
  scraper_total_time :: "exn + pyval"
  scraper_yields :: "exn + pyval"
  scraper_ingredients :: "exn + pyval"
  scraper_instructions :: "exn + pyval"
  scraper_image :: "exn + pyval"
  scraper_author :: "(exn + pyval) option"
  scraper_cuisine :: "(exn + pyval) option"
  scraper_category :: "(exn + pyval) option"

record web =
  requests_get :: "pyval \<Rightarrow> exn + response"
  scrape_html :: "string \<Rightarrow> pyval \<Rightarrow> exn + scraper"
  urlparse_netloc :: "pyval \<Rightarrow> exn + pyval"

definition raise_for_status :: "response \<Rightarrow> exn + unit" where
  "raise_for_status r = (case status_error r of Some e \<Rightarrow> Inl e | None \<Rightarrow> Inr ())"

text \<open>\<open>scraper.m() if hasattr(scraper, 'm') else default\<close>.\<close>

definition call_if_hasattr :: "(exn + pyval) option \<Rightarrow> pyval \<Rightarrow> exn + pyval" where
  "call_if_hasattr m dflt = (case m of Some r \<Rightarrow> r | None \<Rightarrow> Inr dflt)"

text \<open>
  The body of the \<open>try\<close> of \<open>scrape_recipe\<close>: the progress line, the request, the status
  check, the parser, and the dictionary whose entries are evaluated in the order written.
\<close>

definition scrape_recipe_try :: "web \<Rightarrow> pyval \<Rightarrow> pyval \<Rightarrow> exn + pyval" where
  "scrape_recipe_try w url bookmark_title =
     bind_exn (py_slice_60 url) (\<lambda>shown.
     bind_exn (requests_get w url) (\<lambda>resp.
     bind_exn (raise_for_status resp) (\<lambda>ok.
     bind_exn (scrape_html w (content resp) url) (\<lambda>sc.
     bind_exn (scraper_title sc) (\<lambda>title.
     bind_exn (scraper_host sc) (\<lambda>host.
     bind_exn (scraper_total_time sc) (\<lambda>total_time.
     bind_exn (scraper_yields sc) (\<lambda>yields.
     bind_exn (scraper_ingredients sc) (\<lambda>ingredients.
     bind_exn (scraper_instructions sc) (\<lambda>instructions.
     bind_exn (scraper_image sc) (\<lambda>image.
     bind_exn (call_if_hasattr (scraper_author sc) (VStr ''Unknown'')) (\<lambda>author.
     bind_exn (call_if_hasattr (scraper_cuisine sc) VNone) (\<lambda>cuisine.
     bind_exn (call_if_hasattr (scraper_category sc) VNone) (\<lambda>category.
       Inr (VDict
         [(''title'', title),
          (''url'', url),
          (''bookmark_title'', bookmark_title),
          (''host'', host),
          (''total_time'', total_time),
          (''yields'', yields),
          (''ingredients'', ingredients),
          (''instructions'', instructions),
          (''image'', image),
          (''author'', author),
          (''cuisine'', cuisine),
          (''category'', category),
          (''scraped_successfully'', VBool True),
          (''error'', VNone)])))))))))))))))"

text \<open>
  \<open>scrape_recipe\<close>: the \<open>except Exception as e\<close> branch builds the partial record; its
  call of \<open>urlparse\<close> stands outside any \<open>try\<close>, so what it raises leaves the function.
\<close>

definition scrape_recipe :: "web \<Rightarrow> pyval \<Rightarrow> pyval \<Rightarrow> exn + pyval" where
  "scrape_recipe w url bookmark_title =
     (case scrape_recipe_try w url bookmark_title of
        Inr recipe \<Rightarrow> Inr recipe
      | Inl e \<Rightarrow>
          bind_exn (urlparse_netloc w url) (\<lambda>netloc.
            Inr (VDict
              [(''title'', py_or bookmark_title (VStr ''Unknown Recipe'')),
               (''url'', url),
               (''bookmark_title'', bookmark_title),
               (''host'', netloc),
               (''scraped_successfully'', VBool False),
               (''error'', VStr (exn_text e))])))"

text \<open>
  \<open>scrape_all_recipes\<close>: the loop over the bookmarks, appending one record per bookmark;
  an exception that leaves \<open>scrape_recipe\<close>, or a bookmark without one of its two keys,
  ends the loop and the function. The progress lines and the pause of one second between
  two requests leave the records as they are and are not modelled.
\<close>

fun scrape_loop :: "web \<Rightarrow> pyval list \<Rightarrow> pyval list \<Rightarrow> exn + pyval list" where
  "scrape_loop w recipes [] = Inr recipes"
| "scrape_loop w recipes (bookmark # rest) =
     bind_exn (py_item bookmark ''url'') (\<lambda>url.
     bind_exn (py_item bookmark ''bookmark_title'') (\<lambda>bookmark_title.
     bind_exn (scrape_recipe w url bookmark_title) (\<lambda>recipe.
       scrape_loop w (recipes @ [recipe]) rest)))"

definition scrape_all_recipes :: "web \<Rightarrow> pyval list \<Rightarrow> exn + pyval list" where
  "scrape_all_recipes w bookmarks = scrape_loop w [] bookmarks"

text \<open>
  A sample world: one page that parses, one address the server answers with 404, and the
  address \<open>http://[\<close>, which \<open>requests\<close> refuses and on which \<open>urlparse\<close> raises
  \<open>ValueError\<close>.
\<close>

definition pasta_scraper :: scraper where
  "pasta_scraper =
     \<lparr>scraper_title = Inr (VStr ''Pasta''),
      scraper_host = Inr (VStr ''example.com''),
      scraper_total_time = Inr (VInt 20),
      scraper_yields = Inr (VStr ''4 servings''),
      scraper_ingredients = Inr (VList [VStr ''pasta'', VStr ''salt'']),
      scraper_instructions = Inr (VStr ''Boil.\<newline>Serve.''),
      scraper_image = Inr VNone,
      scraper_author = Some (Inr (VStr ''Unknown'')),
      scraper_cuisine = None,
      scraper_category = Some (Inr (VStr ''Dinner''))\<rparr>"

definition sample_web :: web where
  "sample_web =
     \<lparr>requests_get = (\<lambda>url.
        if url = VStr ''https://example.com/pasta''
        then Inr \<lparr>status_error = None, content = ''<html>pasta</html>''\<rparr>
        else if url = VStr ''https://example.com/gone''
        then Inr \<lparr>status_error = Some (Exn ''HTTPError'' ''404 Client Error: Not Found''),
                  content = []\<rparr>
        else Inl (Exn ''InvalidURL'' ''Failed to parse'')),
      scrape_html = (\<lambda>html url. Inr pasta_scraper),
      urlparse_netloc = (\<lambda>url.
        if url = VStr ''http://[''
        then Inl (Exn ''ValueError'' ''Invalid IPv6 URL'')
        else Inr (VStr ''example.com''))\<rparr>"

definition pasta_bookmark :: pyval where
  "pasta_bookmark =
     VDict [(''url'', VStr ''https://example.com/pasta''), (''bookmark_title'', VStr ''Pasta night'')]"

definition gone_bookmark :: pyval where
  "gone_bookmark =
     VDict [(''url'', VStr ''https://example.com/gone''), (''bookmark_title'', VStr [])]"

definition bracket_bookmark :: pyval where
  "bracket_bookmark =
     VDict [(''url'', VStr ''http://[''), (''bookmark_title'', VStr ''Soup'')]"

definition pasta_record :: pyval where
  "pasta_record =
     VDict
       [(''title'', VStr ''Pasta''),
        (''url'', VStr ''https://example.com/pasta''),
        (''bookmark_title'', VStr ''Pasta night''),
        (''host'', VStr ''example.com''),
        (''total_time'', VInt 20),
        (''yields'', VStr ''4 servings''),
        (''ingredients'', VList [VStr ''pasta'', VStr ''salt'']),
        (''instructions'', VStr ''Boil.\<newline>Serve.''),
        (''image'', VNone),
        (''author'', VStr ''Unknown''),
        (''cuisine'', VNone),
        (''category'', VStr ''Dinner''),
        (''scraped_successfully'', VBool True),
        (''error'', VNone)]"

definition gone_record :: pyval where
  "gone_record =
     VDict
       [(''title'', VStr ''Unknown Recipe''),
        (''url'', VStr ''https://example.com/gone''),
        (''bookmark_title'', VStr []),
        (''host'', VStr ''example.com''),
        (''scraped_successfully'', VBool False),
        (''error'', VStr ''404 Client Error: Not Found'')]"

section \<open>Text: what \<open>str\<close>, \<open>join\<close> and \<open>replace\<close> produce\<close>

function digits :: "nat \<Rightarrow> string" where
  "digits n =
     (if n < 10 then [''0123456789'' ! n]
      else digits (n div 10) @ [''0123456789'' ! (n mod 10)])"
  by pat_completeness auto
termination
  by (relation "measure id") auto

declare digits.simps [simp del]

definition str_int :: "int \<Rightarrow> string" where
  "str_int i = (if i < 0 then CHR ''-'' # digits (nat (- i)) else digits (nat i))"

fun str_join :: "string \<Rightarrow> string list \<Rightarrow> string" where
  "str_join sep [] = []"
| "str_join sep [x] = x"
| "str_join sep (x # y # ys) = x @ sep @ str_join sep (y # ys)"

text \<open>
  \<open>repr\<close> of a string: double quotes when the text has an apostrophe and no double quote,
  apostrophes otherwise; backslash, the quote and control characters escaped. Text
  outside ASCII is taken as printable and stays as it is.
\<close>

definition repr_char :: "char \<Rightarrow> char \<Rightarrow> string" where
  "repr_char q c =
     (if c = CHR 0x5C then [CHR 0x5C, CHR 0x5C]
      else if c = q then [CHR 0x5C, q]
      else if c = CHR 0x0A then [CHR 0x5C, CHR ''n'']
      else if c = CHR 0x0D then [CHR 0x5C, CHR ''r'']
      else if c = CHR 0x09 then [CHR 0x5C, CHR ''t'']
      else if (of_char c :: nat) < 32 \<or> (of_char c :: nat) = 127
      then [CHR 0x5C, CHR ''x'', ''0123456789abcdef'' ! ((of_char c :: nat) div 16),
            ''0123456789abcdef'' ! ((of_char c :: nat) mod 16)]
      else [c])"

definition repr_str :: "string \<Rightarrow> string" where
  "repr_str s =
     (let q = (if CHR 0x27 \<in> set s \<and> CHR 0x22 \<notin> set s then CHR 0x22 else CHR 0x27)
      in q # concat (map (repr_char q) s) @ [q])"

primrec py_repr :: "pyval \<Rightarrow> string" where
  "py_repr VNone = ''None''"
| "py_repr (VBool b) = (if b then ''True'' else ''False'')"
| "py_repr (VInt n) = str_int n"
| "py_repr (VStr s) = repr_str s"
| "py_repr (VList xs) = ''['' @ str_join '', '' (map py_repr xs) @ '']''"
| "py_repr (VDict d) =
     ''{'' @ str_join '', ''
              (map (\<lambda>kr. repr_str (fst kr) @ '': '' @ snd kr) (map (map_prod id py_repr) d))
       @ ''}''"

text \<open>\<open>str(v)\<close>, which is what an f-string puts in place of \<open>{v}\<close>.\<close>

definition py_str :: "pyval \<Rightarrow> string" where
  "py_str v = (case v of VStr s \<Rightarrow> s | _ \<Rightarrow> py_repr v)"

text \<open>\<open>s.replace(chr(10), '<br><br>')\<close>; only a string has the method.\<close>

definition replace_newlines :: "pyval \<Rightarrow> exn + string" where
  "replace_newlines v =
     (case v of
        VStr s \<Rightarrow> Inr (concat (map (\<lambda>c. if c = CHR 0x0A then ''<br><br>'' else [c]) s))
      | _ \<Rightarrow> Inl (Exn ''AttributeError''
                 (py_quote (type_name v) @ '' object has no attribute '' @ py_quote ''replace'')))"

text \<open>
  The signs the scripts print and put into the page, in UTF-8: the cross mark, the check
  mark, the books, the bar chart, the globe, the stopwatch and the plate (each of the last
  two followed by the variation selector of the source), and the two arrows.
\<close>

definition cross_mark :: string where
  "cross_mark = [CHR 0xE2, CHR 0x9D, CHR 0x8C]"

definition check_mark :: string where
  "check_mark = [CHR 0xE2, CHR 0x9C, CHR 0x85]"

definition books :: string where
  "books = [CHR 0xF0, CHR 0x9F, CHR 0x93, CHR 0x9A]"

definition bar_chart :: string where
  "bar_chart = [CHR 0xF0, CHR 0x9F, CHR 0x93, CHR 0x8A]"

definition globe :: string where
  "globe = [CHR 0xF0, CHR 0x9F, CHR 0x8C, CHR 0x90]"

definition stopwatch :: string where
  "stopwatch = [CHR 0xE2, CHR 0x8F, CHR 0xB1, CHR 0xEF, CHR 0xB8, CHR 0x8F]"

definition plate :: string where
  "plate = [CHR 0xF0, CHR 0x9F, CHR 0x8D, CHR 0xBD, CHR 0xEF, CHR 0xB8, CHR 0x8F]"

definition left_arrow :: string where
  "left_arrow = [CHR 0xE2, CHR 0x86, CHR 0x90]"

definition right_arrow :: string where
  "right_arrow = [CHR 0xE2, CHR 0x86, CHR 0x92]"

section \<open>JSON text (Python's \<open>json\<close> module)\<close>

text \<open>
  The code point of a character given by its UTF-8 bytes, and the escape \<open>\uXXXX\<close> with
  four lower-case hexadecimal digits.
\<close>

fun code_point :: "string \<Rightarrow> nat" where
  "code_point [] = 0"
| "code_point [a] = of_char a"
| "code_point [a, b] = (of_char a mod 32) * 64 + of_char b mod 64"
| "code_point [a, b, c] = (of_char a mod 16) * 4096 + (of_char b mod 64) * 64 + of_char c mod 64"
| "code_point (a # b # c # d # rest) =
     (of_char a mod 8) * 262144 + (of_char b mod 64) * 4096 + (of_char c mod 64) * 64
       + of_char d mod 64"

definition hex_digit :: "nat \<Rightarrow> char" where
  "hex_digit n = ''0123456789abcdef'' ! (n mod 16)"

definition u_escape :: "nat \<Rightarrow> string" where
  "u_escape n =
     [CHR 0x5C, CHR ''u'', hex_digit (n div 4096), hex_digit (n div 256), hex_digit (n div 16),
      hex_digit n]"

text \<open>
  The escapes both encoders share: the quote, the backslash and the five control
  characters with a short form.
\<close>

definition short_escape :: "char \<Rightarrow> string option" where
  "short_escape c =
     (if c = CHR 0x22 then Some [CHR 0x5C, CHR 0x22]
      else if c = CHR 0x5C then Some [CHR 0x5C, CHR 0x5C]
      else if c = CHR 0x0A then Some [CHR 0x5C, CHR ''n'']
      else if c = CHR 0x0D then Some [CHR 0x5C, CHR ''r'']
      else if c = CHR 0x09 then Some [CHR 0x5C, CHR ''t'']
      else if c = CHR 0x08 then Some [CHR 0x5C, CHR ''b'']
      else if c = CHR 0x0C then Some [CHR 0x5C, CHR ''f'']
      else None)"

text \<open>
  \<open>json.dumps(x)\<close> with the defaults, as \<open>generate_html\<close> calls it: \<open>ensure_ascii\<close> is on,
  so every character outside the printable ASCII range is written as an escape (two
  escapes, a surrogate pair, beyond \<open>U+FFFF\<close>); items are separated by a comma and a
  space, a key and its value by a colon and a space.
\<close>

definition json_escape_ascii :: "string \<Rightarrow> string" where
  "json_escape_ascii ch =
     (case (case ch of [c] \<Rightarrow> short_escape c | _ \<Rightarrow> None) of
        Some e \<Rightarrow> e
      | None \<Rightarrow>
          let n = code_point ch in
          if 32 \<le> n \<and> n < 127 then ch
          else if n < 65536 then u_escape n
          else u_escape (55296 + (n - 65536) div 1024) @ u_escape (56320 + (n - 65536) mod 1024))"

definition json_string_ascii :: "string \<Rightarrow> string" where
  "json_string_ascii s = [CHR 0x22] @ concat (map json_escape_ascii (utf8_chars s)) @ [CHR 0x22]"

primrec json_dumps :: "pyval \<Rightarrow> string" where
  "json_dumps VNone = ''null''"
| "json_dumps (VBool b) = (if b then ''true'' else ''false'')"
| "json_dumps (VInt n) = str_int n"
| "json_dumps (VStr s) = json_string_ascii s"
| "json_dumps (VList xs) = ''['' @ str_join '', '' (map json_dumps xs) @ '']''"
| "json_dumps (VDict d) =
     ''{'' @ str_join '', ''
              (map (\<lambda>kt. json_string_ascii (fst kt) @ '': '' @ snd kt)
                 (map (map_prod id json_dumps) d))
       @ ''}''"

section \<open>Recipe store (scrape\_recipes.py, generate\_site.py)\<close>

text \<open>
  The store file \<open>data/recipes.json\<close>, at the level of the JSON document it holds: absent,
  present but failing in \<open>open\<close> or \<open>json.load\<close>, or holding a document. \<open>json.dump\<close> and
  \<open>json.load\<close> belong to Python's library; every value of \<open>pyval\<close> is a JSON value
  (\<open>None\<close> is \<open>null\<close>, keys are strings), which \<open>json.dump\<close> writes and \<open>json.load\<close> reads
  back as it was.
\<close>

datatype store_file = NoFile | BadFile exn | Stored pyval

text \<open>
  \<open>save_recipes\<close>: the file is opened for writing, so whatever it held is replaced by the
  list of records.
\<close>

definition save_recipes :: "pyval list \<Rightarrow> store_file \<Rightarrow> store_file" where
  "save_recipes recipes output_file = Stored (VList recipes)"

text \<open>The paths and the clock of the site generator.\<close>

record config =
  recipes_file :: string
  index_file :: string
  now_isoformat :: string

text \<open>The list comprehension \<open>[r for r in recipes if r.get('scraped_successfully')]\<close>.\<close>

fun keep_successful :: "pyval list \<Rightarrow> exn + pyval list" where
  "keep_successful [] = Inr []"
| "keep_successful (r # rest) =
     bind_exn (py_get r ''scraped_successfully'' VNone) (\<lambda>flag.
     bind_exn (keep_successful rest) (\<lambda>kept.
       Inr (if truthy flag then r # kept else kept)))"

text \<open>
  \<open>load_recipes\<close>: the lines it prints and what it returns or raises. Only the absence of
  the file is handled; an exception of \<open>open\<close> or \<open>json.load\<close> leaves the function.
\<close>

definition load_recipes :: "config \<Rightarrow> store_file \<Rightarrow> string list \<times> (exn + pyval list)" where
  "load_recipes cfg file =
     (case file of
        NoFile \<Rightarrow>
          ([cross_mark @ '' Error: '' @ recipes_file cfg @ '' not found'',
            ''Run 'python scripts/scrape_recipes.py' first''],
           Inr [])
      | BadFile e \<Rightarrow> ([], Inl e)
      | Stored recipes \<Rightarrow>
          (case bind_exn (py_iter recipes) keep_successful of
             Inl e \<Rightarrow> ([], Inl e)
           | Inr successful_recipes \<Rightarrow>
               ([books @ '' Loaded ''
                   @ digits (length successful_recipes) @ '' recipes''],
                Inr successful_recipes)))"

section \<open>Site generator (generate\_site.py)\<close>

definition card_placeholder :: string where
  "card_placeholder = ''https://via.placeholder.com/400x300?text=No+Image''"

definition detail_placeholder :: string where
  "detail_placeholder = ''https://via.placeholder.com/800x600?text=No+Image''"

text \<open>
  The values of the replacement fields of a card, after the locals of
  \<open>generate_recipe_card_html\<close>: \<open>image_url\<close>, \<open>title\<close>, \<open>host\<close> and the two optional
  badges.
\<close>

record card_view =
  card_image_url :: string
  card_title :: string
  card_host :: string
  card_time_span :: string
  card_yields_span :: string

text \<open>The f-string of \<open>generate_recipe_card_html\<close>.\<close>

definition card_template :: "string \<Rightarrow> card_view \<Rightarrow> string" where
  \<open>card_template index v =
    ''\<newline>'' @
    ''    <div class="recipe-card" data-index="'' @ index @ ''">\<newline>'' @
    ''        <img src="'' @ card_image_url v @ ''" alt="'' @ card_title v @
    ''" loading="lazy" onerror="this.src='https://via.placeholder.com/400x300?text=No+Image'">\<newline>'' @
    ''        <div class="recipe-card-content">\<newline>'' @
    ''            <h3>'' @ card_title v @ ''</h3>\<newline>'' @
    ''            <div class="recipe-meta">\<newline>'' @
    ''                <span class="recipe-source">'' @ card_host v @ ''</span>\<newline>'' @
    ''                '' @ card_time_span v @ ''\<newline>'' @
    ''                '' @ card_yields_span v @ ''\<newline>'' @
    ''            </div>\<newline>'' @
    ''        </div>\<newline>'' @
    ''    </div>\<newline>'' @
    ''    ''\<close>

text \<open>
  The two optional badges:
  \<open>f'<span class="recipe-time">... {time_str}</span>' if time_str else ''\<close> and
  \<open>f'<span class="recipe-yields">... {yields}</span>' if yields else ''\<close>.
\<close>

definition time_span :: "string \<Rightarrow> string" where
  \<open>time_span time_str =
     (if time_str \<noteq> []
      then ''<span class="recipe-time">'' @ stopwatch
             @ '' '' @ time_str @ ''</span>''
      else [])\<close>

definition yields_span :: "pyval \<Rightarrow> string" where
  \<open>yields_span yields =
     (if truthy yields
      then ''<span class="recipe-yields">''
             @ plate
             @ '' '' @ py_str yields @ ''</span>''
      else [])\<close>

text \<open>
  \<open>generate_recipe_card_html\<close>: the locals, then the f-string. The five \<open>recipe.get\<close>
  need a dictionary; formatting cannot fail.
\<close>

definition recipe_card_view :: "pyval \<Rightarrow> exn + card_view" where
  "recipe_card_view recipe =
     bind_exn (py_get recipe ''image'' VNone) (\<lambda>image.
     bind_exn (py_get recipe ''title'' (VStr ''Untitled Recipe'')) (\<lambda>title.
     bind_exn (py_get recipe ''host'' (VStr [])) (\<lambda>host.
     bind_exn (py_get recipe ''total_time'' (VInt 0)) (\<lambda>total_time.
     bind_exn (py_get recipe ''yields'' (VStr [])) (\<lambda>yields.
       let image_url = py_or image (VStr card_placeholder);
           time_str = (if truthy total_time then py_str total_time @ '' min'' else [])
       in Inr \<lparr>card_image_url = py_str image_url,
               card_title = py_str title,
               card_host = py_str host,
               card_time_span = time_span time_str,
               card_yields_span = yields_span yields\<rparr>)))))"

definition generate_recipe_card_html :: "pyval \<Rightarrow> nat \<Rightarrow> exn + string" where
  "generate_recipe_card_html recipe index =
     bind_exn (recipe_card_view recipe) (\<lambda>v. Inr (card_template (digits index) v))"

text \<open>
  The values of the replacement fields of a detail panel, in the order of the f-string of
  \<open>generate_recipe_detail_html\<close>.
\<close>

record detail_view =
  detail_heading :: string
  detail_image_src :: string
  detail_image_alt :: string
  detail_time_item :: string
  detail_servings_item :: string
  detail_author_item :: string
  detail_ingredients_html :: string
  detail_instructions_html :: string
  detail_url :: string

text \<open>The f-string of \<open>generate_recipe_detail_html\<close>.\<close>

definition detail_template :: "string \<Rightarrow> detail_view \<Rightarrow> string" where
  \<open>detail_template index v =
    ''\<newline>'' @
    ''    <div class="recipe-detail" id="recipe-'' @ index @ ''" style="display: none;">\<newline>'' @
    ''        <button class="back-btn" onclick="closeRecipe()">'' @ left_arrow @ '' Back</button>\<newline>'' @
    ''        <h2>'' @ detail_heading v @ ''</h2>\<newline>'' @
    ''        \<newline>'' @
    ''        <div class="recipe-image-container">\<newline>'' @
    ''            <img src="'' @ detail_image_src v @ ''" \<newline>'' @
    ''                 alt="'' @ detail_image_alt v @ ''"\<newline>'' @
    ''                 onerror="this.src='https://via.placeholder.com/800x600?text=No+Image'">\<newline>'' @
    ''        </div>\<newline>'' @
    ''        \<newline>'' @
    ''        <div class="recipe-info">\<newline>'' @
    ''            '' @ detail_time_item v @ ''\<newline>'' @
    ''            '' @ detail_servings_item v @ ''\<newline>'' @
    ''            '' @ detail_author_item v @ ''\<newline>'' @
    ''        </div>\<newline>'' @
    ''        \<newline>'' @
    ''        <div class="recipe-section">\<newline>'' @
    ''            <h3>Ingredients</h3>\<newline>'' @
    ''            <ul class="ingredients-list">\<newline>'' @
    ''                '' @ detail_ingredients_html v @ ''\<newline>'' @
    ''            </ul>\<newline>'' @
    ''        </div>\<newline>'' @
    ''        \<newline>'' @
    ''        <div class="recipe-section">\<newline>'' @
    ''            <h3>Instructions</h3>\<newline>'' @
    ''            <div class="instructions">\<newline>'' @
    ''                '' @ detail_instructions_html v @ ''\<newline>'' @
    ''            </div>\<newline>'' @
    ''        </div>\<newline>'' @
    ''        \<newline>'' @
    ''        <div class="recipe-footer">\<newline>'' @
    ''            <a href="'' @ detail_url v @ ''" target="_blank" class="source-link">View Original Recipe '' @ right_arrow @ ''</a>\<newline>'' @
    ''        </div>\<newline>'' @
    ''    </div>\<newline>'' @
    ''    ''\<close>

text \<open>The three optional items of the \<open>recipe-info\<close> block.\<close>

definition time_item :: "pyval \<Rightarrow> string" where
  \<open>time_item total_time =
     (if truthy total_time
      then ''<div class="info-item"><strong>Time:</strong> '' @ py_str total_time @ '' min</div>''
      else [])\<close>

definition servings_item :: "pyval \<Rightarrow> string" where
  \<open>servings_item yields =
     (if truthy yields
      then ''<div class="info-item"><strong>Servings:</strong> '' @ py_str yields @ ''</div>''
      else [])\<close>

definition author_item :: "pyval \<Rightarrow> string" where
  \<open>author_item author =
     (if truthy author \<and> author \<noteq> VStr ''Unknown''
      then ''<div class="info-item"><strong>Author:</strong> '' @ py_str author @ ''</div>''
      else [])\<close>

text \<open>
  \<open>generate_recipe_detail_html\<close>: the two locals, then the fields of the f-string in
  their order. The ingredient items are built first, so an \<open>ingredients\<close> entry that
  cannot be iterated raises before an \<open>instructions\<close> entry without \<open>replace\<close> does.
\<close>

definition recipe_detail_view :: "pyval \<Rightarrow> exn + detail_view" where
  "recipe_detail_view recipe =
     bind_exn (py_get recipe ''ingredients'' (VList [])) (\<lambda>ingredients.
     bind_exn (py_iter ingredients) (\<lambda>items.
     bind_exn (py_get recipe ''instructions'' (VStr ''No instructions available'')) (\<lambda>instructions.
     bind_exn (py_get recipe ''title'' (VStr ''Untitled Recipe'')) (\<lambda>heading.
     bind_exn (py_get recipe ''image'' VNone) (\<lambda>image.
     bind_exn (py_get recipe ''title'' (VStr [])) (\<lambda>alt.
     bind_exn (py_get recipe ''total_time'' VNone) (\<lambda>total_time.
     bind_exn (py_get recipe ''yields'' VNone) (\<lambda>yields.
     bind_exn (py_get recipe ''author'' VNone) (\<lambda>author.
     bind_exn (replace_newlines instructions) (\<lambda>instructions_html.
     bind_exn (py_get recipe ''url'' VNone) (\<lambda>url.
       Inr \<lparr>detail_heading = py_str heading,
            detail_image_src = py_str (py_or image (VStr detail_placeholder)),
            detail_image_alt = py_str alt,
            detail_time_item = time_item total_time,
            detail_servings_item = servings_item yields,
            detail_author_item = author_item author,
            detail_ingredients_html =
              concat (map (\<lambda>ing. ''<li>'' @ py_str ing @ ''</li>'') items),
            detail_instructions_html = instructions_html,
            detail_url = py_str url\<rparr>)))))))))))"

definition generate_recipe_detail_html :: "pyval \<Rightarrow> nat \<Rightarrow> exn + string" where
  "generate_recipe_detail_html recipe index =
     bind_exn (recipe_detail_view recipe) (\<lambda>v. Inr (detail_template (digits index) v))"

text \<open>Collecting the results of a comprehension: the first exception ends it.\<close>

fun collect :: "(exn + 'a) list \<Rightarrow> exn + 'a list" where
  "collect [] = Inr []"
| "collect (r # rs) = bind_exn r (\<lambda>x. bind_exn (collect rs) (\<lambda>xs. Inr (x # xs)))"

text \<open>The entry of \<open>recipes_json\<close> for one recipe, the data the page's script searches.\<close>

definition search_entry :: "pyval \<Rightarrow> exn + pyval" where
  "search_entry r =
     bind_exn (py_get r ''title'' (VStr [])) (\<lambda>title.
     bind_exn (py_get r ''host'' (VStr [])) (\<lambda>host.
     bind_exn (py_get r ''ingredients'' (VList [])) (\<lambda>ingredients.
     bind_exn (py_get r ''category'' (VStr [])) (\<lambda>category.
     bind_exn (py_get r ''cuisine'' (VStr [])) (\<lambda>cuisine.
       Inr (VDict [(''title'', title), (''host'', host), (''ingredients'', ingredients),
                   (''category'', category), (''cuisine'', cuisine)]))))))"

text \<open>
  The page \<open>generate_html\<close> returns, by the replacement fields of its f-string: the number
  of recipes (in the description and in the header), the cards and the detail panels,
  each joined by newlines, the text \<open>recipes_json\<close> and the time of generation. The fixed
  text before the script (style sheet and markup) is the same for every input and is not
  repeated here.
\<close>

record page =
  page_recipe_count :: nat
  page_recipe_cards :: string
  page_recipe_details :: string
  page_recipes_json :: string
  page_generated :: string

definition generate_html :: "config \<Rightarrow> pyval list \<Rightarrow> exn + page" where
  "generate_html cfg recipes =
     bind_exn (collect (map (\<lambda>(i, r). generate_recipe_card_html r i) (enumerate 0 recipes)))
       (\<lambda>cards.
     bind_exn (collect (map (\<lambda>(i, r). generate_recipe_detail_html r i) (enumerate 0 recipes)))
       (\<lambda>details.
     bind_exn (collect (map search_entry recipes)) (\<lambda>entries.
       Inr \<lparr>page_recipe_count = length recipes,
            page_recipe_cards = str_join ''\<newline>'' cards,
            page_recipe_details = str_join ''\<newline>'' details,
            page_recipes_json = json_dumps (VList entries),
            page_generated = now_isoformat cfg\<rparr>)))"

text \<open>
  The text of the page between \<open><script>\<close> and \<open></script>\<close>: the f-string writes
  \<open>recipes_json\<close> into it as it is, and the time of generation into its last statement.
\<close>

definition script_head :: string where
  \<open>script_head = ''\<newline>'' @ ''        const recipesData = ''\<close>

definition script_body :: string where
  \<open>script_body =
    '';\<newline>'' @
    ''        \<newline>'' @
    ''        // Search functionality\<newline>'' @
    ''        const searchInput = document.getElementById('searchInput');\<newline>'' @
    ''        const recipesGrid = document.getElementById('recipesGrid');\<newline>'' @
    ''        const recipeCards = document.querySelectorAll('.recipe-card');\<newline>'' @
    ''        const recipeCount = document.getElementById('recipeCount');\<newline>'' @
    ''        const noResults = document.getElementById('noResults');\<newline>'' @
    ''        \<newline>'' @
    ''        searchInput.addEventListener('input', (e) => {\<newline>'' @
    ''            const searchTerm = e.target.value.toLowerCase();\<newline>'' @
    ''            let visibleCount = 0;\<newline>'' @
    ''            \<newline>'' @
    ''            recipeCards.forEach((card, index) => {\<newline>'' @
    ''                const recipe = recipesData[index];\<newline>'' @
    ''                const searchableText = [\<newline>'' @
    ''                    recipe.title,\<newline>'' @
    ''                    recipe.host,\<newline>'' @
    ''                    recipe.category || '' @ [CHR 0x27] @ [CHR 0x27] @ '',\<newline>'' @
    ''                    recipe.cuisine || '' @ [CHR 0x27] @ [CHR 0x27] @ '',\<newline>'' @
    ''                    ...recipe.ingredients\<newline>'' @
    ''                ].join(' ').toLowerCase();\<newline>'' @
    ''                \<newline>'' @
    ''                if (searchableText.includes(searchTerm)) {\<newline>'' @
    ''                    card.style.display = 'block';\<newline>'' @
    ''                    visibleCount++;\<newline>'' @
    ''                } else {\<newline>'' @
    ''                    card.style.display = 'none';\<newline>'' @
    ''                }\<newline>'' @
    ''            });\<newline>'' @
    ''            \<newline>'' @
    ''            recipeCount.textContent = `${visibleCount} recipe${visibleCount !== 1 ? 's' : '' @ [CHR 0x27] @ [CHR 0x27] @ ''}`;\<newline>'' @
    ''            noResults.style.display = visibleCount === 0 ? 'block' : 'none';\<newline>'' @
    ''            recipesGrid.style.display = visibleCount === 0 ? 'none' : 'grid';\<newline>'' @
    ''        });\<newline>'' @
    ''        \<newline>'' @
    ''        // Recipe card click handlers\<newline>'' @
    ''        recipeCards.forEach((card) => {\<newline>'' @
    ''            card.addEventListener('click', () => {\<newline>'' @
    ''                const index = card.dataset.index;\<newline>'' @
    ''                openRecipe(index);\<newline>'' @
    ''            });\<newline>'' @
    ''        });\<newline>'' @
    ''        \<newline>'' @
    ''        function openRecipe(index) {\<newline>'' @
    ''            recipesGrid.style.display = 'none';\<newline>'' @
    ''            document.getElementById('recipeDetail').style.display = 'block';\<newline>'' @
    ''            document.getElementById(`recipe-${index}`).style.display = 'block';\<newline>'' @
    ''            window.scrollTo(0, 0);\<newline>'' @
    ''        }\<newline>'' @
    ''        \<newline>'' @
    ''        function closeRecipe() {\<newline>'' @
    ''            document.getElementById('recipeDetail').style.display = 'none';\<newline>'' @
    ''            document.querySelectorAll('.recipe-detail').forEach(detail => {\<newline>'' @
    ''                detail.style.display = 'none';\<newline>'' @
    ''            });\<newline>'' @
    ''            recipesGrid.style.display = 'grid';\<newline>'' @
    ''        }\<newline>'' @
    ''        \<newline>'' @
    ''        // Update last generated time\<newline>'' @
    ''        console.log('Site generated: ''\<close>

definition script_foot :: string where
  \<open>script_foot = [CHR 0x27] @ '');\<newline>'' @ ''    ''\<close>

definition page_script :: "page \<Rightarrow> string" where
  "page_script pg =
     script_head @ page_recipes_json pg @ script_body @ page_generated pg @ script_foot"

definition page_end :: string where
  \<open>page_end = ''</script>\<newline>'' @ ''</body>\<newline>'' @ ''</html>''\<close>

text \<open>
  A run of \<open>main\<close>: the lines printed, the page written to \<open>site/index.html\<close> if any, and
  the exception that ended the run if any.
\<close>

record run =
  stdout :: "string list"
  site_file :: "page option"
  raised :: "exn option"

definition main :: "config \<Rightarrow> store_file \<Rightarrow> run" where
  "main cfg file =
     (case load_recipes cfg file of
        (out, Inl e) \<Rightarrow> \<lparr>stdout = out, site_file = None, raised = Some e\<rparr>
      | (out, Inr recipes) \<Rightarrow>
          if recipes = []
          then \<lparr>stdout = out @ [cross_mark @ '' No recipes to generate site from''],
                site_file = None, raised = None\<rparr>
          else (case generate_html cfg recipes of
                  Inl e \<Rightarrow> \<lparr>stdout = out, site_file = None, raised = Some e\<rparr>
                | Inr html \<Rightarrow>
                    \<lparr>stdout = out @
                       [check_mark @ '' Site generated at '' @ index_file cfg,
                        bar_chart @ '' '' @ digits (length recipes)
                          @ '' recipes included'',
                        ''\<newline>'' @ globe
                          @ '' Test locally: python -m http.server 8000 --directory site'',
                        ''   Then open: http://localhost:8000''],
                     site_file = Some html, raised = None\<rparr>))"

text \<open>A record of the store, and whether the read keeps it.\<close>

fun is_dict :: "pyval \<Rightarrow> bool" where
  "is_dict (VDict d) = True"
| "is_dict v = False"

fun scraped_ok :: "pyval \<Rightarrow> bool" where
  "scraped_ok (VDict d) = truthy (dict_get d ''scraped_successfully'' VNone)"
| "scraped_ok v = False"

definition sample_config :: config where
  "sample_config =
     \<lparr>recipes_file = ''data/recipes.json'', index_file = ''site/index.html'',
      now_isoformat = ''2024-01-01T00:00:00''\<rparr>"

section \<open>The page's search handler (script in generate\_site.py)\<close>

text \<open>
  The script of the page runs in the browser on \<open>recipesData\<close>, the array of the entries
  \<open>search_entry\<close> builds; a JSON value is a \<open>pyval\<close>, \<open>null\<close> being \<open>VNone\<close>. JavaScript's
  rules differ from Python's: an array or an object is always true, \<open>join\<close> writes
  \<open>null\<close> as the empty string, spreading \<open>...x\<close> needs an array or a string.
\<close>

fun js_truthy :: "pyval \<Rightarrow> bool" where
  "js_truthy VNone = False"
| "js_truthy (VBool b) = b"
| "js_truthy (VInt n) = (n \<noteq> 0)"
| "js_truthy (VStr s) = (s \<noteq> [])"
| "js_truthy (VList xs) = True"
| "js_truthy (VDict d) = True"

definition js_or :: "pyval \<Rightarrow> pyval \<Rightarrow> pyval" where
  "js_or a b = (if js_truthy a then a else b)"

text \<open>A property of an object; a missing one is \<open>undefined\<close>, which every use below treats as \<open>null\<close>.\<close>

definition js_prop :: "pyval \<Rightarrow> string \<Rightarrow> exn + pyval" where
  "js_prop v k =
     (case v of
        VDict d \<Rightarrow> Inr (dict_get d k VNone)
      | VNone \<Rightarrow> Inl (Exn ''TypeError'' ''Cannot read properties of null'')
      | _ \<Rightarrow> Inr VNone)"

text \<open>\<open>String(v)\<close>, and the text \<open>join\<close> writes for an element.\<close>

primrec js_string :: "pyval \<Rightarrow> string" where
  "js_string VNone = ''null''"
| "js_string (VBool b) = (if b then ''true'' else ''false'')"
| "js_string (VInt n) = str_int n"
| "js_string (VStr s) = s"
| "js_string (VList xs) =
     str_join '','' (map (\<lambda>vs. if fst vs = VNone then [] else snd vs)
                       (zip xs (map js_string xs)))"
| "js_string (VDict d) = ''[object Object]''"

definition js_join_text :: "pyval \<Rightarrow> string" where
  "js_join_text v = (if v = VNone then [] else js_string v)"

definition js_spread :: "pyval \<Rightarrow> exn + pyval list" where
  "js_spread v =
     (case v of
        VList xs \<Rightarrow> Inr xs
      | VStr s \<Rightarrow> Inr (map VStr (utf8_chars s))
      | _ \<Rightarrow> Inl (Exn ''TypeError'' ''Spread syntax requires ...iterable[Symbol.iterator] to be a function''))"

text \<open>
  The text searched for one recipe:
  \<open>[recipe.title, recipe.host, recipe.category || '', recipe.cuisine || '', ...recipe.ingredients].join(' ').toLowerCase()\<close>.
  \<open>toLowerCase\<close> is the browser's; it is the parameter \<open>lower\<close>.
\<close>

definition searchable_text :: "(string \<Rightarrow> string) \<Rightarrow> pyval \<Rightarrow> exn + string" where
  "searchable_text lower recipe =
     bind_exn (js_prop recipe ''title'') (\<lambda>title.
     bind_exn (js_prop recipe ''host'') (\<lambda>host.
     bind_exn (js_prop recipe ''category'') (\<lambda>category.
     bind_exn (js_prop recipe ''cuisine'') (\<lambda>cuisine.
     bind_exn (js_prop recipe ''ingredients'') (\<lambda>ingredients.
     bind_exn (js_spread ingredients) (\<lambda>items.
       Inr (lower (str_join '' ''
              (map js_join_text
                 ([title, host, js_or category (VStr []), js_or cuisine (VStr [])] @ items))))))))))"

text \<open>
  What the handler of the \<open>input\<close> event leaves on the page: the \<open>display\<close> of every card,
  the text of the counter, the \<open>display\<close> of the placeholder and of the grid.
\<close>

record search_view =
  card_display :: "string list"
  recipe_count :: string
  no_results_display :: string
  recipes_grid_display :: string

text \<open>
  The loop \<open>recipeCards.forEach((card, index) => ...)\<close> over the cards, which stand in the
  page in the order of \<open>recipesData\<close>: the displays set, and \<open>visibleCount\<close>.
\<close>

fun show_cards ::
  "(string \<Rightarrow> string) \<Rightarrow> string \<Rightarrow> pyval list \<Rightarrow> string list \<times> nat \<Rightarrow> exn + string list \<times> nat" where
  "show_cards lower term [] (shown, visible_count) = Inr (shown, visible_count)"
| "show_cards lower term (recipe # rest) (shown, visible_count) =
     bind_exn (searchable_text lower recipe) (\<lambda>text.
       if sublist term text
       then show_cards lower term rest (shown @ [''block''], visible_count + 1)
       else show_cards lower term rest (shown @ [''none''], visible_count))"

definition search_input :: "(string \<Rightarrow> string) \<Rightarrow> pyval list \<Rightarrow> string \<Rightarrow> exn + search_view" where
  "search_input lower recipes_data input_value =
     (let search_term = lower input_value in
      bind_exn (show_cards lower search_term recipes_data ([], 0)) (\<lambda>(shown, visible_count).
        Inr \<lparr>card_display = shown,
             recipe_count = digits visible_count @ '' recipe''
                              @ (if visible_count \<noteq> 1 then ''s'' else []),
             no_results_display = (if visible_count = 0 then ''block'' else ''none''),
             recipes_grid_display = (if visible_count = 0 then ''none'' else ''grid'')\<rparr>))"

text \<open>
  The haystack as the specification words it: title, host, category, cuisine and all
  ingredients, joined by spaces, in lower case. An absent field gives the empty text.
\<close>

definition field_text :: "(string \<times> pyval) list \<Rightarrow> string \<Rightarrow> string" where
  "field_text d k = (case map_of d k of Some (VStr s) \<Rightarrow> s | _ \<Rightarrow> [])"

definition ingredient_texts :: "(string \<times> pyval) list \<Rightarrow> string list" where
  "ingredient_texts d =
     (case map_of d ''ingredients'' of
        Some (VList xs) \<Rightarrow> map (\<lambda>x. case x of VStr s \<Rightarrow> s | _ \<Rightarrow> []) xs
      | _ \<Rightarrow> [])"

fun haystack :: "(string \<Rightarrow> string) \<Rightarrow> pyval \<Rightarrow> string" where
  "haystack lower (VDict d) =
     lower (str_join '' ''
              ([field_text d ''title'', field_text d ''host'', field_text d ''category'',
                field_text d ''cuisine''] @ ingredient_texts d))"
| "haystack lower v = []"

text \<open>
  A recipe record as the data model types the fields the search reads: \<open>title\<close>, \<open>host\<close>,
  \<open>category\<close> and \<open>cuisine\<close> are strings or absent (no entry, or \<open>None\<close>), \<open>ingredients\<close> is
  a sequence of strings, or has no entry.
\<close>

definition text_or_absent :: "(string \<times> pyval) list \<Rightarrow> string \<Rightarrow> bool" where
  "text_or_absent d k =
     (case map_of d k of None \<Rightarrow> True | Some VNone \<Rightarrow> True | Some (VStr s) \<Rightarrow> True
      | Some _ \<Rightarrow> False)"

fun is_text :: "pyval \<Rightarrow> bool" where
  "is_text (VStr s) = True"
| "is_text v = False"

fun recipe_record :: "pyval \<Rightarrow> bool" where
  "recipe_record (VDict d) =
     (text_or_absent d ''title'' \<and> text_or_absent d ''host'' \<and>
      text_or_absent d ''category'' \<and> text_or_absent d ''cuisine'' \<and>
      (case map_of d ''ingredients'' of
         None \<Rightarrow> True
       | Some (VList xs) \<Rightarrow> list_all is_text xs
       | Some _ \<Rightarrow> False))"
| "recipe_record v = False"

text \<open>\<open>toLowerCase\<close> on ASCII text, for the examples.\<close>

definition ascii_lower :: "string \<Rightarrow> string" where
  "ascii_lower s =
     map (\<lambda>c. case map_of (zip ''ABCDEFGHIJKLMNOPQRSTUVWXYZ'' ''abcdefghijklmnopqrstuvwxyz'') c of
                Some l \<Rightarrow> l | None \<Rightarrow> c) s"

text \<open>Two sample records of the store: one without title, image and time, one with a time.\<close>

definition untitled_fields :: "(string \<times> pyval) list" where
  "untitled_fields =
     [(''url'', VStr ''https://example.org/soup''),
      (''host'', VStr ''example.org''),
      (''total_time'', VInt 0),
      (''ingredients'', VList [VStr ''water'']),
      (''instructions'', VStr ''Mix.\<newline>Eat.''),
      (''author'', VStr ''Unknown''),
      (''scraped_successfully'', VBool True)]"


text \<open>
  A parser whose \<open>title()\<close> returns \<open>None\<close> and whose \<open>image()\<close> returns \<open>None\<close>, and the
  record \<open>scrape_recipe\<close> builds from it; a record whose title and image are both the
  empty text.
\<close>

definition nameless_scraper :: scraper where
  "nameless_scraper = pasta_scraper\<lparr>scraper_title := Inr VNone\<rparr>"

definition nameless_web :: web where
  "nameless_web = sample_web\<lparr>scrape_html := (\<lambda>html url. Inr nameless_scraper)\<rparr>"

definition nameless_record :: pyval where
  "nameless_record =
     VDict
       [(''title'', VNone),
        (''url'', VStr ''https://example.com/pasta''),
        (''bookmark_title'', VStr ''Pasta night''),
        (''host'', VStr ''example.com''),
        (''total_time'', VInt 20),
        (''yields'', VStr ''4 servings''),
        (''ingredients'', VList [VStr ''pasta'', VStr ''salt'']),
        (''instructions'', VStr ''Boil.\<newline>Serve.''),
        (''image'', VNone),
        (''author'', VStr ''Unknown''),
        (''cuisine'', VNone),
        (''category'', VStr ''Dinner''),
        (''scraped_successfully'', VBool True),
        (''error'', VNone)]"

definition blank_record :: pyval where
  "blank_record =
     VDict
       [(''title'', VStr []),
        (''url'', VStr ''https://example.com/pasta''),
        (''host'', VStr ''example.com''),
        (''ingredients'', VList [VStr ''pasta'']),
        (''instructions'', VStr ''Boil.''),
        (''image'', VStr []),
        (''scraped_successfully'', VBool True),
        (''error'', VNone)]"

section \<open>The script element in the browser\<close>

text \<open>
  Where the script element of the page ends is decided by the browser's HTML parser, not
  by the script: the text after \<open><script>\<close> is read in the script data states of the
  tokenizer of the HTML standard. A state that takes a tag name carries the letters read
  so far, in lower case.
\<close>

datatype script_state =
  Script_data
  | Less_than_sign
  | End_tag_open
  | End_tag_name string
  | Escape_start
  | Escape_start_dash
  | Escaped
  | Escaped_dash
  | Escaped_dash_dash
  | Escaped_less_than_sign
  | Escaped_end_tag_open
  | Escaped_end_tag_name string
  | Double_escape_start string
  | Double_escaped
  | Double_escaped_dash
  | Double_escaped_dash_dash
  | Double_escaped_less_than_sign
  | Double_escape_end string

definition ascii_alpha :: "char \<Rightarrow> bool" where
  "ascii_alpha c =
     (c \<in> set ''abcdefghijklmnopqrstuvwxyz'' \<or> c \<in> set ''ABCDEFGHIJKLMNOPQRSTUVWXYZ'')"

text \<open>What ends a tag name: tab, line feed, form feed, space, solidus or \<open>></\<close>.\<close>

definition ends_tag_name :: "char \<Rightarrow> bool" where
  "ends_tag_name c = (c \<in> {CHR 0x09, CHR 0x0A, CHR 0x0C, CHR '' '', CHR ''/'', CHR ''>''})"

text \<open>
  The three states in which a character that fits nothing else is read again (the
  standard's \<open>reconsume\<close>): script data, escaped and double escaped.
\<close>

definition data_step :: "char \<Rightarrow> script_state" where
  "data_step c = (if c = CHR ''<'' then Less_than_sign else Script_data)"

definition escaped_step :: "char \<Rightarrow> script_state" where
  "escaped_step c =
     (if c = CHR ''-'' then Escaped_dash
      else if c = CHR ''<'' then Escaped_less_than_sign
      else Escaped)"

definition double_escaped_step :: "char \<Rightarrow> script_state" where
  "double_escaped_step c =
     (if c = CHR ''-'' then Double_escaped_dash
      else if c = CHR ''<'' then Double_escaped_less_than_sign
      else Double_escaped)"

text \<open>
  One character of the tokenizer. \<open>None\<close>: the character completes the name of an end tag
  \<open></script\<close>, which ends the element. Every other character belongs to the text of the
  script.
\<close>

fun script_step :: "script_state \<Rightarrow> char \<Rightarrow> script_state option" where
  "script_step Script_data c = Some (data_step c)"
| "script_step Less_than_sign c =
     (if c = CHR ''/'' then Some End_tag_open
      else if c = CHR ''!'' then Some Escape_start
      else Some (data_step c))"
| "script_step End_tag_open c =
     (if ascii_alpha c then Some (End_tag_name (ascii_lower [c])) else Some (data_step c))"
| "script_step (End_tag_name name) c =
     (if ends_tag_name c then (if name = ''script'' then None else Some (data_step c))
      else if ascii_alpha c then Some (End_tag_name (name @ ascii_lower [c]))
      else Some (data_step c))"
| "script_step Escape_start c =
     (if c = CHR ''-'' then Some Escape_start_dash else Some (data_step c))"
| "script_step Escape_start_dash c =
     (if c = CHR ''-'' then Some Escaped_dash_dash else Some (data_step c))"
| "script_step Escaped c = Some (escaped_step c)"
| "script_step Escaped_dash c =
     (if c = CHR ''-'' then Some Escaped_dash_dash
      else if c = CHR ''<'' then Some Escaped_less_than_sign
      else Some Escaped)"
| "script_step Escaped_dash_dash c =
     (if c = CHR ''-'' then Some Escaped_dash_dash
      else if c = CHR ''<'' then Some Escaped_less_than_sign
      else if c = CHR ''>'' then Some Script_data
      else Some Escaped)"
| "script_step Escaped_less_than_sign c =
     (if c = CHR ''/'' then Some Escaped_end_tag_open
      else if ascii_alpha c then Some (Double_escape_start (ascii_lower [c]))
      else Some (escaped_step c))"
| "script_step Escaped_end_tag_open c =
     (if ascii_alpha c then Some (Escaped_end_tag_name (ascii_lower [c]))
      else Some (escaped_step c))"
| "script_step (Escaped_end_tag_name name) c =
     (if ends_tag_name c then (if name = ''script'' then None else Some (escaped_step c))
      else if ascii_alpha c then Some (Escaped_end_tag_name (name @ ascii_lower [c]))
      else Some (escaped_step c))"
| "script_step (Double_escape_start name) c =
     (if ends_tag_name c then Some (if name = ''script'' then Double_escaped else Escaped)
      else if ascii_alpha c then Some (Double_escape_start (name @ ascii_lower [c]))
      else Some (escaped_step c))"
| "script_step Double_escaped c = Some (double_escaped_step c)"
| "script_step Double_escaped_dash c =
     (if c = CHR ''-'' then Some Double_escaped_dash_dash
      else if c = CHR ''<'' then Some Double_escaped_less_than_sign
      else Some Double_escaped)"
| "script_step Double_escaped_dash_dash c =
     (if c = CHR ''-'' then Some Double_escaped_dash_dash
      else if c = CHR ''<'' then Some Double_escaped_less_than_sign
      else if c = CHR ''>'' then Some Script_data
      else Some Double_escaped)"
| "script_step Double_escaped_less_than_sign c =
     (if c = CHR ''/'' then Some (Double_escape_end [])
      else Some (double_escaped_step c))"
| "script_step (Double_escape_end name) c =
     (if ends_tag_name c then Some (if name = ''script'' then Escaped else Double_escaped)
      else if ascii_alpha c then Some (Double_escape_end (name @ ascii_lower [c]))
      else Some (double_escaped_step c))"

text \<open>
  The number of characters of the text of the script element: those read before the eight
  characters \<open></script\<close> of the end tag that ends it. \<open>None\<close>: the page ends before
  any such tag, and the browser runs no script at all.
\<close>

fun script_chars :: "script_state \<Rightarrow> string \<Rightarrow> nat \<Rightarrow> nat option" where
  "script_chars st [] n = None"
| "script_chars st (c # cs) n =
     (case script_step st c of
        None \<Rightarrow> Some (n - 8)
      | Some st' \<Rightarrow> script_chars st' cs (Suc n))"

definition script_element :: "string \<Rightarrow> string option" where
  "script_element after_start_tag =
     map_option (\<lambda>n. take n after_start_tag) (script_chars Script_data after_start_tag 0)"

text \<open>
  The script runs as written when the element the browser finds is the script the page
  was given. The text Python's \<open>json.dumps\<close> writes is an array literal of JavaScript,
  and no character \<open><\<close> stands in the script outside the strings of that array, so an
  element that ends early ends inside a string literal: the script is then a syntax
  error, none of its statements runs, and the page stays as it was loaded.
\<close>

definition script_runs :: "page \<Rightarrow> bool" where
  "script_runs pg = (script_element (page_script pg @ page_end) = Some (page_script pg))"

text \<open>
  The page as loaded: no card has a \<open>display\<close> of its own (the style sheet shows it), the
  counter reads \<open>{len(recipes)} recipes\<close>, the placeholder carries
  \<open>style="display: none;"\<close>, the grid has no \<open>display\<close> of its own.
\<close>

definition initial_view :: "page \<Rightarrow> search_view" where
  "initial_view pg =
     \<lparr>card_display = replicate (page_recipe_count pg) [],
      recipe_count = digits (page_recipe_count pg) @ '' recipes'',
      no_results_display = ''none'',
      recipes_grid_display = []\<rparr>"

text \<open>
  What the page shows after a text is typed into the search box: the view the handler
  leaves when the script runs, the page as loaded when it does not. \<open>recipes_data\<close> is
  the array whose text \<open>page_recipes_json\<close> is.
\<close>

definition page_search ::
  "(string \<Rightarrow> string) \<Rightarrow> page \<Rightarrow> pyval list \<Rightarrow> string \<Rightarrow> exn + search_view" where
  "page_search lower pg recipes_data input_value =
     (if script_runs pg then search_input lower recipes_data input_value
      else Inr (initial_view pg))"

text \<open>A recipe whose title names the tag.\<close>

definition tart_record :: pyval where
  "tart_record =
     VDict
       [(''title'', VStr ''Tart</script>''),
        (''url'', VStr ''https://example.com/tart''),
        (''bookmark_title'', VStr ''Tart''),
        (''host'', VStr ''example.com''),
        (''total_time'', VInt 45),
        (''yields'', VStr ''8 servings''),
        (''ingredients'', VList [VStr ''flour'', VStr ''butter'']),
        (''instructions'', VStr ''Bake.''),
        (''image'', VNone),
        (''author'', VStr ''Ada''),
        (''cuisine'', VNone),
        (''category'', VStr ''Dessert''),
        (''scraped_successfully'', VBool True),
        (''error'', VNone)]"

section \<open>Properties of the bookmark extractor\<close>



















lemma is_reading_list_folder: "is_reading_list reading_list_folder"
  by (simp add: reading_list_folder_def dict_get_def reading_list_title_def)












section \<open>Properties of the recipe fetcher\<close>

lemma bind_exn_Inr: "bind_exn m f = Inr y \<Longrightarrow> \<exists>x. m = Inr x \<and> f x = Inr y"
  by (cases m) (simp_all add: bind_exn_def)

text \<open>The record of a parse that went through: the fourteen entries, in order.\<close>

lemma scrape_recipe_try_record:
  assumes "scrape_recipe_try w url bookmark_title = Inr recipe"
  shows "\<exists>title host total_time yields ingredients instructions image author cuisine category.
           recipe = VDict
             [(''title'', title),
              (''url'', url),
              (''bookmark_title'', bookmark_title),
              (''host'', host),
              (''total_time'', total_time),
              (''yields'', yields),
              (''ingredients'', ingredients),
              (''instructions'', instructions),
              (''image'', image),
              (''author'', author),
              (''cuisine'', cuisine),
              (''category'', category),
              (''scraped_successfully'', VBool True),
              (''error'', VNone)]"
  using assms unfolding scrape_recipe_try_def
  by (auto dest!: bind_exn_Inr)

lemma scrape_recipe_try_flags:
  assumes "scrape_recipe_try w url bookmark_title = Inr recipe"
  shows "\<exists>d. recipe = VDict d \<and>
           dict_get d ''scraped_successfully'' VNone = VBool True \<and>
           dict_get d ''error'' VNone = VNone"
  using scrape_recipe_try_record [OF assms] by (auto simp: dict_get_def)

text \<open>Every record the loop appends is a record \<open>scrape_recipe\<close> returned.\<close>

lemma scrape_loop_records:
  "scrape_loop w recipes bookmarks = Inr result \<Longrightarrow>
     \<exists>new. result = recipes @ new \<and> length new = length bookmarks \<and>
       (\<forall>r \<in> set new. \<exists>url bookmark_title. scrape_recipe w url bookmark_title = Inr r)"
proof (induction bookmarks arbitrary: recipes)
  case Nil
  then show ?case by simp
next
  case (Cons bookmark rest)
  from Cons.prems obtain url bookmark_title recipe where
    r: "scrape_recipe w url bookmark_title = Inr recipe" and
    l: "scrape_loop w (recipes @ [recipe]) rest = Inr result"
    by (auto dest!: bind_exn_Inr)
  from Cons.IH [OF l] obtain new where
    new: "result = (recipes @ [recipe]) @ new" "length new = length rest"
      "\<forall>r \<in> set new. \<exists>url bookmark_title. scrape_recipe w url bookmark_title = Inr r"
    by blast
  show ?case
  proof (intro exI conjI)
    show "result = recipes @ (recipe # new)" using new(1) by simp
    show "length (recipe # new) = length (bookmark # rest)" using new(2) by simp
    show "\<forall>r \<in> set (recipe # new). \<exists>url bookmark_title. scrape_recipe w url bookmark_title = Inr r"
      using r new(3) by auto
  qed
qed

text \<open>
  Where no bookmark makes \<open>scrape_recipe\<close> raise, the batch gives one record per bookmark,
  in the order of the bookmarks.
\<close>

lemma scrape_loop_complete:
  assumes "\<forall>b \<in> set bookmarks. \<exists>url bookmark_title r.
             py_item b ''url'' = Inr url \<and> py_item b ''bookmark_title'' = Inr bookmark_title \<and>
             scrape_recipe w url bookmark_title = Inr r"
  shows "\<exists>new. scrape_loop w recipes bookmarks = Inr (recipes @ new) \<and>
           length new = length bookmarks \<and>
           (\<forall>i < length bookmarks. \<exists>url bookmark_title.
              py_item (bookmarks ! i) ''url'' = Inr url \<and>
              py_item (bookmarks ! i) ''bookmark_title'' = Inr bookmark_title \<and>
              scrape_recipe w url bookmark_title = Inr (new ! i))"
  using assms
proof (induction bookmarks arbitrary: recipes)
  case Nil
  then show ?case by simp
next
  case (Cons b rest)
  from Cons.prems obtain url bookmark_title r where
    b: "py_item b ''url'' = Inr url" "py_item b ''bookmark_title'' = Inr bookmark_title"
       "scrape_recipe w url bookmark_title = Inr r"
    by auto
  from Cons.prems have "\<forall>b \<in> set rest. \<exists>url bookmark_title r.
             py_item b ''url'' = Inr url \<and> py_item b ''bookmark_title'' = Inr bookmark_title \<and>
             scrape_recipe w url bookmark_title = Inr r"
    by simp
  from Cons.IH [OF this, of "recipes @ [r]"] obtain new where
    new: "scrape_loop w (recipes @ [r]) rest = Inr ((recipes @ [r]) @ new)"
      "length new = length rest"
      "\<forall>i < length rest. \<exists>url bookmark_title.
              py_item (rest ! i) ''url'' = Inr url \<and>
              py_item (rest ! i) ''bookmark_title'' = Inr bookmark_title \<and>
              scrape_recipe w url bookmark_title = Inr (new ! i)"
    by blast
  have 1: "scrape_loop w recipes (b # rest) = Inr (recipes @ (r # new))"
    using b new(1) by (simp add: bind_exn_def)
  have 2: "length (r # new) = length (b # rest)" using new(2) by simp
  have 3: "\<exists>url bookmark_title.
              py_item ((b # rest) ! i) ''url'' = Inr url \<and>
              py_item ((b # rest) ! i) ''bookmark_title'' = Inr bookmark_title \<and>
              scrape_recipe w url bookmark_title = Inr ((r # new) ! i)"
    if "i < length (b # rest)" for i
    using that b new(3) by (cases i) auto
  from 1 2 3 show ?case by blast
qed

lemma scrape_recipe_pasta:
  "scrape_recipe sample_web (VStr ''https://example.com/pasta'') (VStr ''Pasta night'') =
     Inr pasta_record"
  by (simp add: scrape_recipe_def scrape_recipe_try_def sample_web_def pasta_scraper_def
      pasta_record_def bind_exn_def py_slice_60_def raise_for_status_def call_if_hasattr_def)

lemma scrape_recipe_gone:
  "scrape_recipe sample_web (VStr ''https://example.com/gone'') (VStr []) = Inr gone_record"
  by (simp add: scrape_recipe_def scrape_recipe_try_def sample_web_def gone_record_def
      bind_exn_def py_slice_60_def raise_for_status_def py_or_def)

lemma scrape_recipe_bracket:
  "scrape_recipe sample_web (VStr ''http://['') (VStr ''Soup'') =
     Inl (Exn ''ValueError'' ''Invalid IPv6 URL'')"
  by (simp add: scrape_recipe_def scrape_recipe_try_def sample_web_def
      bind_exn_def py_slice_60_def)

text \<open>
  C1 on the code: a batch of three bookmarks whose first address is \<open>http://[\<close>. The
  request fails inside the \<open>try\<close>; the handler then calls \<open>urlparse\<close>, which raises
  \<open>ValueError\<close>; the exception leaves \<open>scrape_recipe\<close> and the loop, and the batch returns
  no record at all, where the specification promises three.
\<close>

theorem scrape_all_recipes_aborts:
  "scrape_all_recipes sample_web [bracket_bookmark, pasta_bookmark, gone_bookmark] =
     Inl (Exn ''ValueError'' ''Invalid IPv6 URL'')"
  by (simp add: scrape_all_recipes_def bracket_bookmark_def py_item_def bind_exn_def
      scrape_recipe_bracket)

lemma scrape_recipe_flags:
  assumes "scrape_recipe w url bookmark_title = Inr recipe"
  shows "\<exists>d. recipe = VDict d \<and>
           (dict_get d ''scraped_successfully'' VNone = VBool True \<and>
              dict_get d ''error'' VNone = VNone \<or>
            dict_get d ''scraped_successfully'' VNone = VBool False \<and>
              (\<exists>text. dict_get d ''error'' VNone = VStr text))"
proof (cases "scrape_recipe_try w url bookmark_title")
  case (Inr r)
  with assms have "recipe = r" by (simp add: scrape_recipe_def)
  with scrape_recipe_try_flags [OF Inr] show ?thesis by auto
next
  case (Inl e)
  with assms show ?thesis
    by (auto simp: scrape_recipe_def dict_get_def dest!: bind_exn_Inr)
qed

lemma scrape_all_recipes_sample:
  "scrape_all_recipes sample_web [pasta_bookmark, gone_bookmark] =
     Inr [pasta_record, gone_record]"
  by (simp add: scrape_all_recipes_def pasta_bookmark_def gone_bookmark_def py_item_def
      bind_exn_def scrape_recipe_pasta scrape_recipe_gone)

text \<open>
  C2: the record of a failed scrape. When the body of the \<open>try\<close> raises \<open>e\<close> and \<open>urlparse\<close>
  gives the domain of the address, \<open>scrape_recipe\<close> returns the dictionary with the six
  entries \<open>title\<close>, \<open>url\<close>, \<open>bookmark_title\<close>, \<open>host\<close>, \<open>scraped_successfully\<close>, \<open>error\<close>:
  the title is the bookmark title, or \<open>Unknown Recipe\<close> when that is empty, the host is the
  parsed domain, the error is \<open>str(e)\<close>. And every record \<open>scrape_recipe\<close> returns with
  \<open>scraped_successfully\<close> false is that dictionary: it has these six keys and no others,
  in particular no \<open>ingredients\<close>.
\<close>

theorem failed_record_fields:
  "(scrape_recipe_try w url bookmark_title = Inl e \<and> urlparse_netloc w url = Inr netloc \<longrightarrow>
      scrape_recipe w url bookmark_title =
        Inr (VDict
          [(''title'', if truthy bookmark_title then bookmark_title else VStr ''Unknown Recipe''),
           (''url'', url),
           (''bookmark_title'', bookmark_title),
           (''host'', netloc),
           (''scraped_successfully'', VBool False),
           (''error'', VStr (exn_text e))])) \<and>
   (scrape_recipe w url bookmark_title = Inr (VDict d) \<and>
    dict_get d ''scraped_successfully'' VNone = VBool False \<longrightarrow>
      map fst d =
        [''title'', ''url'', ''bookmark_title'', ''host'', ''scraped_successfully'', ''error''] \<and>
      map_of d ''ingredients'' = None \<and>
      (\<exists>e' netloc'.
         scrape_recipe_try w url bookmark_title = Inl e' \<and>
         urlparse_netloc w url = Inr netloc' \<and>
         d = [(''title'', if truthy bookmark_title then bookmark_title else VStr ''Unknown Recipe''),
              (''url'', url),
              (''bookmark_title'', bookmark_title),
              (''host'', netloc'),
              (''scraped_successfully'', VBool False),
              (''error'', VStr (exn_text e'))]))"
proof (intro conjI impI)
  assume "scrape_recipe_try w url bookmark_title = Inl e \<and> urlparse_netloc w url = Inr netloc"
  then show "scrape_recipe w url bookmark_title =
        Inr (VDict
          [(''title'', if truthy bookmark_title then bookmark_title else VStr ''Unknown Recipe''),
           (''url'', url),
           (''bookmark_title'', bookmark_title),
           (''host'', netloc),
           (''scraped_successfully'', VBool False),
           (''error'', VStr (exn_text e))])"
    by (simp add: scrape_recipe_def bind_exn_def py_or_def)
next
  assume a: "scrape_recipe w url bookmark_title = Inr (VDict d) \<and>
    dict_get d ''scraped_successfully'' VNone = VBool False"
  have failed: "\<exists>e' netloc'.
         scrape_recipe_try w url bookmark_title = Inl e' \<and>
         urlparse_netloc w url = Inr netloc' \<and>
         d = [(''title'', if truthy bookmark_title then bookmark_title else VStr ''Unknown Recipe''),
              (''url'', url),
              (''bookmark_title'', bookmark_title),
              (''host'', netloc'),
              (''scraped_successfully'', VBool False),
              (''error'', VStr (exn_text e'))]"
  proof (cases "scrape_recipe_try w url bookmark_title")
    case (Inr r)
    with a have "r = VDict d" by (simp add: scrape_recipe_def)
    with scrape_recipe_try_flags [OF Inr] a show ?thesis by simp
  next
    case (Inl e')
    with a show ?thesis
      by (auto simp: scrape_recipe_def py_or_def dest!: bind_exn_Inr)
  qed
  then show "map fst d =
        [''title'', ''url'', ''bookmark_title'', ''host'', ''scraped_successfully'', ''error'']"
    by auto
  from failed show "map_of d ''ingredients'' = None" by auto
  from failed show "\<exists>e' netloc'.
         scrape_recipe_try w url bookmark_title = Inl e' \<and>
         urlparse_netloc w url = Inr netloc' \<and>
         d = [(''title'', if truthy bookmark_title then bookmark_title else VStr ''Unknown Recipe''),
              (''url'', url),
              (''bookmark_title'', bookmark_title),
              (''host'', netloc'),
              (''scraped_successfully'', VBool False),
              (''error'', VStr (exn_text e'))]" .
qed

theorem failed_record_fields_witness:
  "scrape_recipe_try sample_web (VStr ''https://example.com/gone'') (VStr []) =
     Inl (Exn ''HTTPError'' ''404 Client Error: Not Found'') \<and>
   urlparse_netloc sample_web (VStr ''https://example.com/gone'') = Inr (VStr ''example.com'') \<and>
   scrape_recipe sample_web (VStr ''https://example.com/gone'') (VStr []) = Inr gone_record \<and>
   dict_get
     [(''title'', VStr ''Unknown Recipe''),
      (''url'', VStr ''https://example.com/gone''),
      (''bookmark_title'', VStr []),
      (''host'', VStr ''example.com''),
      (''scraped_successfully'', VBool False),
      (''error'', VStr ''404 Client Error: Not Found'')]
     ''scraped_successfully'' VNone = VBool False"
proof -
  have t: "scrape_recipe_try sample_web (VStr ''https://example.com/gone'') (VStr []) =
     Inl (Exn ''HTTPError'' ''404 Client Error: Not Found'')"
    by (simp add: scrape_recipe_try_def sample_web_def bind_exn_def py_slice_60_def
        raise_for_status_def)
  have u: "urlparse_netloc sample_web (VStr ''https://example.com/gone'') =
      Inr (VStr ''example.com'')"
    by (simp add: sample_web_def)
  from failed_record_fields
    [of sample_web "VStr ''https://example.com/gone''" "VStr []"
        "Exn ''HTTPError'' ''404 Client Error: Not Found''" "VStr ''example.com''"] t u
  have "scrape_recipe sample_web (VStr ''https://example.com/gone'') (VStr []) = Inr gone_record"
    by (simp add: gone_record_def)
  with t u show ?thesis by (simp add: dict_get_def)
qed

text \<open>
  C4: in every record of a batch the \<open>error\<close> entry is set only on failure. Each record is a
  dictionary whose \<open>scraped_successfully\<close> is \<open>True\<close> or \<open>False\<close>; when it is \<open>True\<close> the
  \<open>error\<close> entry is \<open>None\<close> (the store's \<open>null\<close>), and an \<open>error\<close> other than \<open>None\<close> occurs
  only with \<open>scraped_successfully\<close> \<open>False\<close>.
\<close>

theorem error_only_on_failure:
  assumes "scrape_all_recipes w bookmarks = Inr recipes" and "r \<in> set recipes"
  shows "\<exists>d. r = VDict d \<and>
           (dict_get d ''scraped_successfully'' VNone = VBool True \<or>
            dict_get d ''scraped_successfully'' VNone = VBool False) \<and>
           (dict_get d ''scraped_successfully'' VNone = VBool True \<longrightarrow>
              dict_get d ''error'' VNone = VNone) \<and>
           (dict_get d ''error'' VNone \<noteq> VNone \<longrightarrow>
              dict_get d ''scraped_successfully'' VNone = VBool False)"
proof -
  from assms(1) scrape_loop_records [of w "[]" bookmarks recipes]
  have "\<forall>r \<in> set recipes. \<exists>url bookmark_title. scrape_recipe w url bookmark_title = Inr r"
    by (auto simp: scrape_all_recipes_def)
  with assms(2) obtain url bookmark_title where
    "scrape_recipe w url bookmark_title = Inr r" by blast
  from scrape_recipe_flags [OF this] show ?thesis by auto
qed

theorem error_only_on_failure_witness:
  "scrape_all_recipes sample_web [pasta_bookmark, gone_bookmark] =
     Inr [pasta_record, gone_record] \<and>
   (\<exists>d. pasta_record = VDict d \<and>
      dict_get d ''scraped_successfully'' VNone = VBool True \<and>
      dict_get d ''error'' VNone = VNone) \<and>
   (\<exists>d. gone_record = VDict d \<and>
      dict_get d ''scraped_successfully'' VNone = VBool False \<and>
      dict_get d ''error'' VNone = VStr ''404 Client Error: Not Found'')"
proof -
  have p: "pasta_record \<in> set [pasta_record, gone_record]" by simp
  from error_only_on_failure [OF scrape_all_recipes_sample p]
  have "\<exists>d. pasta_record = VDict d \<and>
      (dict_get d ''scraped_successfully'' VNone = VBool True \<longrightarrow>
         dict_get d ''error'' VNone = VNone)"
    by blast
  then have "\<exists>d. pasta_record = VDict d \<and>
      dict_get d ''scraped_successfully'' VNone = VBool True \<and>
      dict_get d ''error'' VNone = VNone"
    by (auto simp: pasta_record_def dict_get_def)
  moreover have "\<exists>d. gone_record = VDict d \<and>
      dict_get d ''scraped_successfully'' VNone = VBool False \<and>
      dict_get d ''error'' VNone = VStr ''404 Client Error: Not Found''"
    by (simp add: gone_record_def dict_get_def)
  ultimately show ?thesis using scrape_all_recipes_sample by simp
qed

section \<open>Properties of the store and of the site generator's entry point\<close>

lemma keep_successful_dicts:
  "list_all is_dict rs \<Longrightarrow> keep_successful rs = Inr (filter scraped_ok rs)"
proof (induction rs)
  case Nil
  then show ?case by simp
next
  case (Cons r rs)
  then obtain d where "r = VDict d" by (cases r) auto
  with Cons show ?case by (simp add: bind_exn_def py_get_def)
qed

lemma load_saved:
  "list_all is_dict rs \<Longrightarrow>
     snd (load_recipes cfg (save_recipes rs file)) = Inr (filter scraped_ok rs)"
  by (simp add: load_recipes_def save_recipes_def bind_exn_def keep_successful_dicts)

lemma scraped_ok_samples: "scraped_ok pasta_record" "\<not> scraped_ok gone_record"
  by (simp_all add: pasta_record_def gone_record_def dict_get_def)

lemma is_dict_samples: "is_dict pasta_record" "is_dict gone_record"
  by (simp_all add: pasta_record_def gone_record_def)

text \<open>
  C7, as the specification states it: writing a sequence of records with \<open>save_recipes\<close>
  and reading it with \<open>load_recipes\<close> gives the same sequence. It fails as soon as one
  record is a failed scrape: the read drops it.
\<close>

theorem save_load_counterexample:
  "snd (load_recipes sample_config (save_recipes [pasta_record, gone_record] NoFile)) =
     Inr [pasta_record] \<and>
   [pasta_record] \<noteq> [pasta_record, gone_record]"
  using load_saved [of "[pasta_record, gone_record]" sample_config NoFile]
  by (simp add: scraped_ok_samples is_dict_samples)

text \<open>
  C7, amended: \<open>save_recipes\<close> stores the whole sequence, whatever the file held before,
  and for every sequence of records (dictionaries) \<open>load_recipes\<close> then returns the
  records whose \<open>scraped_successfully\<close> is true, each equal to the record written, in the
  order written.
\<close>

theorem save_load_successful:
  assumes "list_all is_dict rs"
  shows "save_recipes rs file = Stored (VList rs) \<and>
         snd (load_recipes cfg (save_recipes rs file)) = Inr (filter scraped_ok rs)"
  using load_saved [OF assms] by (simp add: save_recipes_def)

theorem save_load_successful_witness:
  "list_all is_dict [gone_record, pasta_record, pasta_record] \<and>
   snd (load_recipes sample_config
          (save_recipes [gone_record, pasta_record, pasta_record]
             (BadFile (Exn ''JSONDecodeError'' ''Expecting value'')))) =
     Inr [pasta_record, pasta_record]"
proof -
  have d: "list_all is_dict [gone_record, pasta_record, pasta_record]"
    by (simp add: is_dict_samples)
  from save_load_successful
    [OF d, of "BadFile (Exn ''JSONDecodeError'' ''Expecting value'')" sample_config]
  have "snd (load_recipes sample_config
          (save_recipes [gone_record, pasta_record, pasta_record]
             (BadFile (Exn ''JSONDecodeError'' ''Expecting value'')))) =
     Inr (filter scraped_ok [gone_record, pasta_record, pasta_record])"
    by blast
  with d show ?thesis by (simp add: scraped_ok_samples)
qed

lemma generate_html_count:
  "generate_html cfg recipes = Inr pg \<Longrightarrow> page_recipe_count pg = length recipes"
  by (auto simp: generate_html_def dest!: bind_exn_Inr)

text \<open>
  C6: when the store file is absent, and when it holds a sequence of records none of which
  has \<open>scraped_successfully\<close> true, \<open>main\<close> ends normally, has written no site file, and
  the last line it printed says that there are no recipes to generate the site from. No
  run writes a page of zero recipes.
\<close>

theorem main_nothing_to_generate:
  "(file = NoFile \<or> (\<exists>rs. file = Stored (VList rs) \<and> list_all is_dict rs \<and>
                            filter scraped_ok rs = []) \<longrightarrow>
      site_file (main cfg file) = None \<and>
      raised (main cfg file) = None \<and>
      stdout (main cfg file) \<noteq> [] \<and>
      last (stdout (main cfg file)) =
        cross_mark @ '' No recipes to generate site from'') \<and>
   (\<forall>pg. site_file (main cfg file') = Some pg \<longrightarrow> 0 < page_recipe_count pg)"
proof (intro conjI impI allI)
  assume "file = NoFile \<or> (\<exists>rs. file = Stored (VList rs) \<and> list_all is_dict rs \<and>
                            filter scraped_ok rs = [])"
  then have "\<exists>out. load_recipes cfg file = (out, Inr [])"
    by (auto simp: load_recipes_def bind_exn_def keep_successful_dicts)
  then obtain out where "load_recipes cfg file = (out, Inr [])" ..
  then have "main cfg file =
      \<lparr>stdout = out @ [cross_mark @ '' No recipes to generate site from''],
       site_file = None, raised = None\<rparr>"
    by (simp add: main_def)
  then show "site_file (main cfg file) = None" "raised (main cfg file) = None"
    "stdout (main cfg file) \<noteq> []"
    "last (stdout (main cfg file)) =
        cross_mark @ '' No recipes to generate site from''"
    by simp_all
next
  fix pg
  assume "site_file (main cfg file') = Some pg"
  then show "0 < page_recipe_count pg"
    by (auto simp: main_def generate_html_count split: prod.splits sum.splits if_splits)
qed

theorem main_nothing_to_generate_witness:
  "main sample_config NoFile =
     \<lparr>stdout =
        [cross_mark @ '' Error: data/recipes.json not found'',
         ''Run 'python scripts/scrape_recipes.py' first'',
         cross_mark @ '' No recipes to generate site from''],
      site_file = None, raised = None\<rparr> \<and>
   list_all is_dict [gone_record] \<and> filter scraped_ok [gone_record] = [] \<and>
   site_file (main sample_config (Stored (VList [gone_record]))) = None \<and>
   raised (main sample_config (Stored (VList [gone_record]))) = None \<and>
   last (stdout (main sample_config (Stored (VList [gone_record])))) =
     cross_mark @ '' No recipes to generate site from''"
proof -
  have a: "main sample_config NoFile =
     \<lparr>stdout =
        [cross_mark @ '' Error: data/recipes.json not found'',
         ''Run 'python scripts/scrape_recipes.py' first'',
         cross_mark @ '' No recipes to generate site from''],
      site_file = None, raised = None\<rparr>"
    by (simp add: main_def load_recipes_def sample_config_def)
  have b: "list_all is_dict [gone_record]" "filter scraped_ok [gone_record] = []"
    by (simp_all add: scraped_ok_samples is_dict_samples)
  then have "Stored (VList [gone_record]) = NoFile \<or>
      (\<exists>rs. Stored (VList [gone_record]) = Stored (VList rs) \<and> list_all is_dict rs \<and>
            filter scraped_ok rs = [])"
    by blast
  with main_nothing_to_generate [of "Stored (VList [gone_record])" sample_config]
  have "site_file (main sample_config (Stored (VList [gone_record]))) = None \<and>
   raised (main sample_config (Stored (VList [gone_record]))) = None \<and>
   last (stdout (main sample_config (Stored (VList [gone_record])))) =
     cross_mark @ '' No recipes to generate site from''"
    by blast
  with a b show ?thesis by simp
qed

section \<open>Properties of the search handler\<close>

lemma field_text_entry:
  "text_or_absent d k \<Longrightarrow> js_join_text (dict_get d k (VStr [])) = field_text d k"
  by (auto simp: text_or_absent_def js_join_text_def dict_get_def field_text_def
      split: option.splits pyval.splits)

lemma field_text_or:
  "text_or_absent d k \<Longrightarrow>
     js_join_text (js_or (dict_get d k (VStr [])) (VStr [])) = field_text d k"
  by (auto simp: text_or_absent_def js_join_text_def dict_get_def field_text_def js_or_def
      split: option.splits pyval.splits)

lemma text_items:
  "list_all is_text xs \<Longrightarrow>
     map js_join_text xs = map (\<lambda>x. case x of VStr s \<Rightarrow> s | _ \<Rightarrow> []) xs"
  by (induction xs) (auto simp: js_join_text_def split: pyval.splits)

lemma ingredients_entry:
  assumes "recipe_record (VDict d)"
  shows "\<exists>items. js_spread (dict_get d ''ingredients'' (VList [])) = Inr items \<and>
      map js_join_text items = ingredient_texts d"
proof (cases "map_of d ''ingredients''")
  case None
  then show ?thesis by (simp add: dict_get_def js_spread_def ingredient_texts_def)
next
  case (Some v)
  with assms obtain xs where "v = VList xs" "list_all is_text xs"
    by (cases v) auto
  with Some show ?thesis
    by (simp add: dict_get_def js_spread_def ingredient_texts_def text_items)
qed

text \<open>
  For a typed record, the text the script searches in the entry Python embedded is the
  haystack of the record.
\<close>

lemma search_entry_text:
  assumes "recipe_record r"
  shows "\<exists>e. search_entry r = Inr e \<and> searchable_text lower e = Inr (haystack lower r)"
proof -
  from assms obtain d where d: "r = VDict d" by (cases r) auto
  from assms d have t: "text_or_absent d ''title''" "text_or_absent d ''host''"
    "text_or_absent d ''category''" "text_or_absent d ''cuisine''" by simp_all
  from assms d obtain items where
    i: "js_spread (dict_get d ''ingredients'' (VList [])) = Inr items"
       "map js_join_text items = ingredient_texts d"
    using ingredients_entry by blast
  let ?e = "VDict [(''title'', dict_get d ''title'' (VStr [])),
                   (''host'', dict_get d ''host'' (VStr [])),
                   (''ingredients'', dict_get d ''ingredients'' (VList [])),
                   (''category'', dict_get d ''category'' (VStr [])),
                   (''cuisine'', dict_get d ''cuisine'' (VStr []))]"
  have e: "search_entry r = Inr ?e"
    by (simp add: d search_entry_def py_get_def bind_exn_def)
  have "searchable_text lower ?e = Inr (haystack lower r)"
    using i t
    by (simp add: d searchable_text_def js_prop_def bind_exn_def dict_get_def [of "_ # _"]
        field_text_entry field_text_or)
  with e show ?thesis by blast
qed

text \<open>The loop over the cards, from any displays and count it starts with.\<close>

lemma show_cards_records:
  assumes "list_all recipe_record recipes"
  shows "\<exists>entries. collect (map search_entry recipes) = Inr entries \<and>
           (\<forall>shown n. show_cards lower q entries (shown, n) =
              Inr (shown @ map (\<lambda>r. if sublist q (haystack lower r) then ''block'' else ''none'')
                             recipes,
                   n + length (filter (\<lambda>r. sublist q (haystack lower r)) recipes)))"
  using assms
proof (induction recipes)
  case Nil
  then show ?case by simp
next
  case (Cons r rest)
  then obtain entries where
    es: "collect (map search_entry rest) = Inr entries" and
    loop: "\<And>shown n. show_cards lower q entries (shown, n) =
              Inr (shown @ map (\<lambda>r. if sublist q (haystack lower r) then ''block'' else ''none'')
                             rest,
                   n + length (filter (\<lambda>r. sublist q (haystack lower r)) rest))"
    by auto
  from Cons.prems obtain e where
    e: "search_entry r = Inr e" "searchable_text lower e = Inr (haystack lower r)"
    using search_entry_text [of r lower] by auto
  have "collect (map search_entry (r # rest)) = Inr (e # entries)"
    using e(1) es by (simp add: bind_exn_def)
  moreover have "show_cards lower q (e # entries) (shown, n) =
              Inr (shown @ map (\<lambda>r. if sublist q (haystack lower r) then ''block'' else ''none'')
                             (r # rest),
                   n + length (filter (\<lambda>r. sublist q (haystack lower r)) (r # rest)))"
    for shown n
    using e(2) loop by (simp add: bind_exn_def)
  ultimately show ?case by blast
qed

lemma haystack_pasta:
  "haystack ascii_lower pasta_record = ''pasta example.com dinner  pasta salt''"
  by (simp add: pasta_record_def field_text_def ingredient_texts_def ascii_lower_def)

lemma recipe_record_pasta: "recipe_record pasta_record"
  by (simp add: pasta_record_def text_or_absent_def)

text \<open>
  The handler itself, run on the entries Python embedded: for every list of recipe records
  and every text typed into the search box, it shows card \<open>i\<close> exactly when the query in
  lower case is a substring of the haystack of recipe \<open>i\<close> (title, host, category, cuisine
  and all ingredients, joined by spaces, in lower case) and hides it otherwise; the
  counter shows the number of matching recipes; the placeholder for no results is shown
  exactly when no recipe matches.
\<close>

lemma search_shows_matching_cards:
  assumes "list_all recipe_record recipes"
  shows "\<exists>entries view.
           collect (map search_entry recipes) = Inr entries \<and>
           search_input lower entries query = Inr view \<and>
           length (card_display view) = length recipes \<and>
           (\<forall>i < length recipes.
              card_display view ! i \<in> {''block'', ''none''} \<and>
              (card_display view ! i = ''block'' \<longleftrightarrow>
                 sublist (lower query) (haystack lower (recipes ! i)))) \<and>
           recipe_count view =
             digits (length (filter (\<lambda>r. sublist (lower query) (haystack lower r)) recipes))
               @ '' recipe''
               @ (if length (filter (\<lambda>r. sublist (lower query) (haystack lower r)) recipes) \<noteq> 1
                  then ''s'' else []) \<and>
           (no_results_display view = ''block'' \<longleftrightarrow>
              filter (\<lambda>r. sublist (lower query) (haystack lower r)) recipes = []) \<and>
           no_results_display view \<in> {''block'', ''none''}"
proof -
  let ?hit = "\<lambda>r. sublist (lower query) (haystack lower r)"
  from show_cards_records [OF assms, of lower "lower query"] obtain entries where
    es: "collect (map search_entry recipes) = Inr entries" and
    loop: "show_cards lower (lower query) entries ([], 0) =
             Inr (map (\<lambda>r. if ?hit r then ''block'' else ''none'') recipes,
                  length (filter ?hit recipes))"
    by auto
  let ?view = "\<lparr>card_display = map (\<lambda>r. if ?hit r then ''block'' else ''none'') recipes,
      recipe_count = digits (length (filter ?hit recipes)) @ '' recipe''
                       @ (if length (filter ?hit recipes) \<noteq> 1 then ''s'' else []),
      no_results_display = (if length (filter ?hit recipes) = 0 then ''block'' else ''none''),
      recipes_grid_display = (if length (filter ?hit recipes) = 0 then ''none'' else ''grid'')\<rparr>"
  have v: "search_input lower entries query = Inr ?view"
    using loop by (simp add: search_input_def bind_exn_def)
  have "length (card_display ?view) = length recipes" by simp
  moreover have "\<forall>i < length recipes.
              card_display ?view ! i \<in> {''block'', ''none''} \<and>
              (card_display ?view ! i = ''block'' \<longleftrightarrow> ?hit (recipes ! i))"
    by simp
  moreover have "recipe_count ?view =
             digits (length (filter ?hit recipes)) @ '' recipe''
               @ (if length (filter ?hit recipes) \<noteq> 1 then ''s'' else [])"
    by simp
  moreover have "(no_results_display ?view = ''block'' \<longleftrightarrow> filter ?hit recipes = [])"
    by simp
  moreover have "no_results_display ?view \<in> {''block'', ''none''}" by simp
  ultimately show ?thesis using es v by blast
qed

text \<open>
  The scenario of the specification: one recipe with ingredients pasta and salt. The query
  \<open>Salt\<close> shows its card and counts one recipe; the query \<open>chicken\<close> hides it and shows the
  placeholder.
\<close>

lemma search_scenario:
  "list_all recipe_record [pasta_record] \<and>
   (\<exists>entries view.
      collect (map search_entry [pasta_record]) = Inr entries \<and>
      search_input ascii_lower entries ''Salt'' = Inr view \<and>
      card_display view = [''block''] \<and> recipe_count view = ''1 recipe'' \<and>
      no_results_display view = ''none'') \<and>
   (\<exists>entries view.
      collect (map search_entry [pasta_record]) = Inr entries \<and>
      search_input ascii_lower entries ''chicken'' = Inr view \<and>
      card_display view = [''none''] \<and> recipe_count view = ''0 recipes'' \<and>
      no_results_display view = ''block'')"
proof -
  have rr: "list_all recipe_record [pasta_record]" by (simp add: recipe_record_pasta)
  have salt: "sublist (ascii_lower ''Salt'') (haystack ascii_lower pasta_record)"
    by (simp add: haystack_pasta ascii_lower_def sublist_code(3))
  have chicken: "\<not> sublist (ascii_lower ''chicken'') (haystack ascii_lower pasta_record)"
    by (simp add: haystack_pasta ascii_lower_def sublist_code(3))
  have one: "xs = [x]" if "length xs = length [pasta_record]" "xs ! 0 = x"
    for xs :: "string list" and x
    using that by (cases xs) auto
  from search_shows_matching_cards [OF rr, of ascii_lower "''Salt''"] obtain es1 v1 where
    1: "collect (map search_entry [pasta_record]) = Inr es1"
       "search_input ascii_lower es1 ''Salt'' = Inr v1"
       "length (card_display v1) = length [pasta_record]"
       "card_display v1 ! 0 = ''block''"
       "recipe_count v1 = digits 1 @ '' recipe''"
       "no_results_display v1 \<noteq> ''block''" "no_results_display v1 \<in> {''block'', ''none''}"
    using salt by auto
  from search_shows_matching_cards [OF rr, of ascii_lower "''chicken''"] obtain es2 v2 where
    2: "collect (map search_entry [pasta_record]) = Inr es2"
       "search_input ascii_lower es2 ''chicken'' = Inr v2"
       "length (card_display v2) = length [pasta_record]"
       "card_display v2 ! 0 \<in> {''block'', ''none''}" "card_display v2 ! 0 \<noteq> ''block''"
       "recipe_count v2 = digits 0 @ '' recipes''"
       "no_results_display v2 = ''block''"
    using chicken by auto
  have d: "digits 1 = ''1''" "digits 0 = ''0''" by (simp_all add: digits.simps)
  from 1 d have "card_display v1 = [''block''] \<and> recipe_count v1 = ''1 recipe'' \<and>
      no_results_display v1 = ''none''"
    using one [of "card_display v1" "''block''"] by auto
  moreover from 2 d have "card_display v2 = [''none''] \<and> recipe_count v2 = ''0 recipes'' \<and>
      no_results_display v2 = ''block''"
    using one [of "card_display v2" "''none''"] by auto
  ultimately show ?thesis using rr 1(1,2) 2(1,2) by blast
qed

subsection \<open>The script element of a generated page\<close>

lemma utf8_chars_ascii:
  "list_all (\<lambda>c. \<not> continuation_byte c) s \<Longrightarrow> utf8_chars s = map (\<lambda>c. [c]) s"
proof (induction s)
  case Nil
  then show ?case by (simp add: utf8_chars.simps)
next
  case (Cons c s)
  then have "takeWhile continuation_byte s = []" "dropWhile continuation_byte s = s"
    by (cases s; simp)+
  with Cons show ?case by (simp add: utf8_chars.simps)
qed

text \<open>Printable ASCII text without quote and backslash is written between quotes as it is.\<close>

lemma json_string_ascii_plain:
  assumes "list_all (\<lambda>c. 32 \<le> (of_char c :: nat) \<and> (of_char c :: nat) < 127 \<and>
                       c \<noteq> CHR 0x22 \<and> c \<noteq> CHR 0x5C) s"
  shows "json_string_ascii s = [CHR 0x22] @ s @ [CHR 0x22]"
proof -
  from assms have "list_all (\<lambda>c. \<not> continuation_byte c) s"
    by (induction s) (auto simp: continuation_byte_def)
  then have u: "utf8_chars s = map (\<lambda>c. [c]) s" by (rule utf8_chars_ascii)
  from assms have "concat (map json_escape_ascii (map (\<lambda>c. [c]) s)) = s"
    by (induction s) (auto simp: json_escape_ascii_def short_escape_def)
  with u show ?thesis by (simp add: json_string_ascii_def)
qed

text \<open>
  Text without \<open><\<close> keeps the tokenizer in the script data state, and the fixed text of
  the script has none: a page whose embedded array and time of generation have none
  either runs its script as written.
\<close>

lemma script_chars_plain:
  "CHR ''<'' \<notin> set xs \<Longrightarrow>
     script_chars Script_data (xs @ ys) n = script_chars Script_data ys (n + length xs)"
  by (induction xs arbitrary: n) (auto simp: data_step_def)

lemma script_text_plain:
  "CHR ''<'' \<notin> set script_head" "CHR ''<'' \<notin> set script_body"
  "CHR ''<'' \<notin> set script_foot"
  by (simp_all add: script_head_def script_body_def script_foot_def)

lemma script_chars_page_end: "script_chars Script_data page_end n = Some n"
  by (simp add: page_end_def data_step_def ascii_alpha_def ascii_lower_def ends_tag_name_def)

lemma script_runs_plain:
  assumes "CHR ''<'' \<notin> set (page_recipes_json pg)" "CHR ''<'' \<notin> set (page_generated pg)"
  shows "script_runs pg"
proof -
  have "CHR ''<'' \<notin> set (page_script pg)"
    using assms script_text_plain by (simp add: page_script_def)
  then have "script_chars Script_data (page_script pg @ page_end) 0 =
      Some (length (page_script pg))"
    by (simp add: script_chars_plain script_chars_page_end)
  then show ?thesis by (simp add: script_runs_def script_element_def)
qed

text \<open>
  The scenario of the specification on the page itself: the page of the one recipe with
  pasta and salt runs its script, and the query \<open>Salt\<close> leaves its card shown.
\<close>

lemma pasta_page_search:
  "\<exists>pg entries.
     generate_html sample_config [pasta_record] = Inr pg \<and>
     collect (map search_entry [pasta_record]) = Inr entries \<and>
     page_recipes_json pg = json_dumps (VList entries) \<and>
     script_runs pg \<and>
     page_search ascii_lower pg entries ''Salt'' =
       Inr \<lparr>card_display = [''block''], recipe_count = ''1 recipe'',
            no_results_display = ''none'', recipes_grid_display = ''grid''\<rparr>"
proof -
  let ?entries = "[VDict [(''title'', VStr ''Pasta''), (''host'', VStr ''example.com''),
                 (''ingredients'', VList [VStr ''pasta'', VStr ''salt'']),
                 (''category'', VStr ''Dinner''), (''cuisine'', VNone)]]"
  have es: "collect (map search_entry [pasta_record]) = Inr ?entries"
    by (simp add: search_entry_def pasta_record_def py_get_def dict_get_def bind_exn_def)
  have "\<exists>pg. generate_html sample_config [pasta_record] = Inr pg \<and>
      page_recipes_json pg = json_dumps (VList ?entries) \<and>
      page_generated pg = ''2024-01-01T00:00:00''"
    by (simp add: generate_html_def generate_recipe_card_html_def
        generate_recipe_detail_html_def recipe_card_view_def recipe_detail_view_def
        pasta_record_def py_get_def dict_get_def bind_exn_def search_entry_def
        replace_newlines_def sample_config_def)
  then obtain pg where pg: "generate_html sample_config [pasta_record] = Inr pg"
    "page_recipes_json pg = json_dumps (VList ?entries)"
    "page_generated pg = ''2024-01-01T00:00:00''"
    by blast
  have "CHR ''<'' \<notin> set (json_dumps (VList ?entries))"
    by (simp add: json_string_ascii_plain)
  with pg have runs: "script_runs pg" by (simp add: script_runs_plain)
  have "search_input ascii_lower ?entries ''Salt'' =
       Inr \<lparr>card_display = [''block''], recipe_count = ''1 recipe'',
            no_results_display = ''none'', recipes_grid_display = ''grid''\<rparr>"
    by (simp add: search_input_def searchable_text_def js_prop_def js_spread_def js_or_def
        js_join_text_def dict_get_def bind_exn_def ascii_lower_def sublist_code(3)
        digits.simps)
  with runs have "page_search ascii_lower pg ?entries ''Salt'' =
       Inr \<lparr>card_display = [''block''], recipe_count = ''1 recipe'',
            no_results_display = ''none'', recipes_grid_display = ''grid''\<rparr>"
    by (simp add: page_search_def)
  with pg es runs show ?thesis by blast
qed

lemma tart_entries:
  "collect (map search_entry [tart_record]) =
     Inr [VDict [(''title'', VStr ''Tart</script>''), (''host'', VStr ''example.com''),
                 (''ingredients'', VList [VStr ''flour'', VStr ''butter'']),
                 (''category'', VStr ''Dessert''), (''cuisine'', VNone)]]"
  by (simp add: search_entry_def tart_record_def py_get_def dict_get_def bind_exn_def)

lemma tart_json:
  \<open>json_dumps (VList [VDict [(''title'', VStr ''Tart</script>''), (''host'', VStr ''example.com''),
                 (''ingredients'', VList [VStr ''flour'', VStr ''butter'']),
                 (''category'', VStr ''Dessert''), (''cuisine'', VNone)]]) =
   ''[{"title": "Tart</script>", "host": "example.com", "ingredients": ["flour", "butter"], "category": "Dessert", "cuisine": null}]''\<close>
  by (simp add: json_string_ascii_plain)

lemma tart_page:
  "\<exists>pg. generate_html sample_config [tart_record] = Inr pg \<and>
        page_recipe_count pg = 1 \<and>
        page_recipes_json pg =
          json_dumps (VList [VDict [(''title'', VStr ''Tart</script>''),
                 (''host'', VStr ''example.com''),
                 (''ingredients'', VList [VStr ''flour'', VStr ''butter'']),
                 (''category'', VStr ''Dessert''), (''cuisine'', VNone)]])"
  by (simp add: generate_html_def generate_recipe_card_html_def generate_recipe_detail_html_def
      recipe_card_view_def recipe_detail_view_def tart_record_def py_get_def dict_get_def
      bind_exn_def search_entry_def replace_newlines_def)

lemma tart_script_element:
  \<open>script_element (script_head @ ''[{"title": "Tart</script>", "host": "example.com", "ingredients": ["flour", "butter"], "category": "Dessert", "cuisine": null}]'' @ rest) =
    Some (script_head @ ''[{"title": "Tart'')\<close>
  by (simp add: script_element_def script_head_def data_step_def ascii_alpha_def
      ascii_lower_def ends_tag_name_def)

lemma tart_search:
  "recipe_record tart_record"
  "haystack ascii_lower tart_record = ''tart</script> example.com dessert  flour butter''"
  by (simp_all add: tart_record_def text_or_absent_def field_text_def ingredient_texts_def
      ascii_lower_def)

text \<open>
  C8, at a recipe the code can receive: a recipe whose title is \<open>Tart</script>\<close>, a record
  typed as the data model types it. \<open>generate_html\<close> writes the title into the script as
  \<open>json.dumps\<close> gives it, so the browser ends the script element inside the title: the
  element holds \<open>const recipesData = [{"title": "Tart\<close> and not the script written, no
  handler is installed, and after the query \<open>chicken\<close>, which is no substring of the
  haystack of the recipe, the page is as it was loaded: the card shown, the counter at
  \<open>1 recipes\<close>, the placeholder hidden. The handler, had it run, would have hidden the
  card, counted \<open>0 recipes\<close> and shown the placeholder, as the claim says.
\<close>

theorem search_script_cut_short:
  \<open>\<exists>pg entries.
     generate_html sample_config [tart_record] = Inr pg \<and>
     collect (map search_entry [tart_record]) = Inr entries \<and>
     page_recipes_json pg = json_dumps (VList entries) \<and>
     page_recipes_json pg =
       ''[{"title": "Tart</script>", "host": "example.com", "ingredients": ["flour", "butter"], "category": "Dessert", "cuisine": null}]'' \<and>
     script_element (page_script pg @ page_end) = Some (script_head @ ''[{"title": "Tart'') \<and>
     script_element (page_script pg @ page_end) \<noteq> Some (page_script pg) \<and>
     recipe_record tart_record \<and>
     sublist (ascii_lower ''chicken'') (haystack ascii_lower tart_record) = False \<and>
     page_search ascii_lower pg entries ''chicken'' =
       Inr \<lparr>card_display = [[]], recipe_count = ''1 recipes'',
            no_results_display = ''none'', recipes_grid_display = []\<rparr> \<and>
     search_input ascii_lower entries ''chicken'' =
       Inr \<lparr>card_display = [''none''], recipe_count = ''0 recipes'',
            no_results_display = ''block'', recipes_grid_display = ''none''\<rparr>\<close>
proof -
  let ?entries = "[VDict [(''title'', VStr ''Tart</script>''), (''host'', VStr ''example.com''),
                 (''ingredients'', VList [VStr ''flour'', VStr ''butter'']),
                 (''category'', VStr ''Dessert''), (''cuisine'', VNone)]]"
  from tart_page obtain pg where
    pg: "generate_html sample_config [tart_record] = Inr pg" "page_recipe_count pg = 1"
      "page_recipes_json pg = json_dumps (VList ?entries)"
    by blast
  have cut: \<open>script_element (page_script pg @ page_end) =
      Some (script_head @ ''[{"title": "Tart'')\<close>
    unfolding page_script_def pg(3) tart_json append_assoc by (rule tart_script_element)
  have differs: "script_element (page_script pg @ page_end) \<noteq> Some (page_script pg)"
    unfolding cut by (simp add: page_script_def pg(3) tart_json)
  then have "page_search ascii_lower pg ?entries ''chicken'' = Inr (initial_view pg)"
    by (simp add: page_search_def script_runs_def)
  then have shown: "page_search ascii_lower pg ?entries ''chicken'' =
       Inr \<lparr>card_display = [[]], recipe_count = ''1 recipes'',
            no_results_display = ''none'', recipes_grid_display = []\<rparr>"
    by (simp add: initial_view_def pg(2) digits.simps)
  have miss: "sublist (ascii_lower ''chicken'') (haystack ascii_lower tart_record) = False"
    by (simp add: tart_search(2) ascii_lower_def sublist_code(3))
  have handler: "search_input ascii_lower ?entries ''chicken'' =
       Inr \<lparr>card_display = [''none''], recipe_count = ''0 recipes'',
            no_results_display = ''block'', recipes_grid_display = ''none''\<rparr>"
    by (simp add: search_input_def searchable_text_def js_prop_def js_spread_def js_or_def
        js_join_text_def dict_get_def bind_exn_def ascii_lower_def sublist_code(3)
        digits.simps)
  from pg(1) tart_entries pg(3) tart_json cut differs tart_search(1) miss shown handler
  show ?thesis by (intro exI [of _ pg] exI [of _ ?entries]) simp
qed

section \<open>Properties of the cards and the detail panels\<close>

lemma card_view_dict:
  "recipe_card_view (VDict d) =
     Inr \<lparr>card_image_url = py_str (py_or (dict_get d ''image'' VNone) (VStr card_placeholder)),
          card_title = py_str (dict_get d ''title'' (VStr ''Untitled Recipe'')),
          card_host = py_str (dict_get d ''host'' (VStr [])),
          card_time_span =
            time_span (if truthy (dict_get d ''total_time'' (VInt 0))
                       then py_str (dict_get d ''total_time'' (VInt 0)) @ '' min'' else []),
          card_yields_span = yields_span (dict_get d ''yields'' (VStr []))\<rparr>"
  by (simp add: recipe_card_view_def py_get_def bind_exn_def)

lemma detail_view_dict:
  assumes "recipe_detail_view (VDict d) = Inr v"
  shows "detail_heading v = py_str (dict_get d ''title'' (VStr ''Untitled Recipe''))"
    and "detail_image_src v = py_str (py_or (dict_get d ''image'' VNone) (VStr detail_placeholder))"
    and "detail_image_alt v = py_str (dict_get d ''title'' (VStr []))"
    and "detail_time_item v = time_item (dict_get d ''total_time'' VNone)"
    and "detail_servings_item v = servings_item (dict_get d ''yields'' VNone)"
    and "detail_author_item v = author_item (dict_get d ''author'' VNone)"
    and "detail_url v = py_str (dict_get d ''url'' VNone)"
  using assms
  by (auto simp: recipe_detail_view_def py_get_def dest!: bind_exn_Inr)


lemma dict_get_missing: "map_of d k = None \<Longrightarrow> dict_get d k dflt = dflt"
  by (simp add: dict_get_def)

lemma detail_view_untitled:
  "recipe_detail_view (VDict untitled_fields) =
     Inr \<lparr>detail_heading = ''Untitled Recipe'',
          detail_image_src = detail_placeholder,
          detail_image_alt = [],
          detail_time_item = [],
          detail_servings_item = [],
          detail_author_item = [],
          detail_ingredients_html = ''<li>water</li>'',
          detail_instructions_html = ''Mix.<br><br>Eat.'',
          detail_url = ''https://example.org/soup''\<rparr>"
  by (simp add: recipe_detail_view_def untitled_fields_def py_get_def dict_get_def bind_exn_def
      replace_newlines_def py_str_def py_or_def time_item_def servings_item_def
      author_item_def)

text \<open>
  The fallbacks the two views of a record do have. The card is the card template filled
  with the values of \<open>recipe_card_view\<close>, the detail panel, when it renders, the detail
  template filled with those of \<open>recipe_detail_view\<close>. When the record has no image (no
  entry, \<open>None\<close> or the empty text) the \<open>src\<close> of the card is the fixed placeholder
  \<open>card_placeholder\<close> and that of the detail panel the fixed placeholder
  \<open>detail_placeholder\<close>. When the record has no \<open>title\<close> entry the card and the heading of
  the detail panel read \<open>Untitled Recipe\<close>. An author equal to \<open>Unknown\<close> leaves the author
  item of the detail panel empty.
\<close>

lemma fallback_policy:
  "(\<exists>c. recipe_card_view (VDict d) = Inr c \<and>
        generate_recipe_card_html (VDict d) i = Inr (card_template (digits i) c) \<and>
        (\<not> truthy (dict_get d ''image'' VNone) \<longrightarrow> card_image_url c = card_placeholder) \<and>
        (map_of d ''title'' = None \<longrightarrow> card_title c = ''Untitled Recipe'')) \<and>
   (\<forall>v. recipe_detail_view (VDict d) = Inr v \<longrightarrow>
        generate_recipe_detail_html (VDict d) i = Inr (detail_template (digits i) v) \<and>
        (\<not> truthy (dict_get d ''image'' VNone) \<longrightarrow> detail_image_src v = detail_placeholder) \<and>
        (map_of d ''title'' = None \<longrightarrow> detail_heading v = ''Untitled Recipe'') \<and>
        (dict_get d ''author'' VNone = VStr ''Unknown'' \<longrightarrow> detail_author_item v = [])) \<and>
   card_placeholder = ''https://via.placeholder.com/400x300?text=No+Image'' \<and>
   detail_placeholder = ''https://via.placeholder.com/800x600?text=No+Image''"
proof (intro conjI allI impI)
  show "\<exists>c. recipe_card_view (VDict d) = Inr c \<and>
        generate_recipe_card_html (VDict d) i = Inr (card_template (digits i) c) \<and>
        (\<not> truthy (dict_get d ''image'' VNone) \<longrightarrow> card_image_url c = card_placeholder) \<and>
        (map_of d ''title'' = None \<longrightarrow> card_title c = ''Untitled Recipe'')"
    by (simp add: card_view_dict generate_recipe_card_html_def bind_exn_def py_or_def
        py_str_def dict_get_missing)
next
  fix v assume v: "recipe_detail_view (VDict d) = Inr v"
  then show "generate_recipe_detail_html (VDict d) i = Inr (detail_template (digits i) v)"
    by (simp add: generate_recipe_detail_html_def bind_exn_def)
  show "detail_image_src v = detail_placeholder" if "\<not> truthy (dict_get d ''image'' VNone)"
    using that detail_view_dict(2) [OF v] by (simp add: py_or_def py_str_def)
  show "detail_heading v = ''Untitled Recipe''" if "map_of d ''title'' = None"
    using that detail_view_dict(1) [OF v] by (simp add: dict_get_missing py_str_def)
  show "detail_author_item v = []" if "dict_get d ''author'' VNone = VStr ''Unknown''"
    using that detail_view_dict(6) [OF v] by (simp add: author_item_def)
next
  show "card_placeholder = ''https://via.placeholder.com/400x300?text=No+Image''"
    by (simp add: card_placeholder_def)
  show "detail_placeholder = ''https://via.placeholder.com/800x600?text=No+Image''"
    by (simp add: detail_placeholder_def)
qed

lemma fallback_example:
  "\<not> truthy (dict_get untitled_fields ''image'' VNone) \<and>
   map_of untitled_fields ''title'' = None \<and>
   dict_get untitled_fields ''author'' VNone = VStr ''Unknown'' \<and>
   (\<exists>c. generate_recipe_card_html (VDict untitled_fields) 3 = Inr (card_template ''3'' c) \<and>
        card_image_url c = ''https://via.placeholder.com/400x300?text=No+Image'' \<and>
        card_title c = ''Untitled Recipe'') \<and>
   (\<exists>v. generate_recipe_detail_html (VDict untitled_fields) 3 = Inr (detail_template ''3'' v) \<and>
        detail_image_src v = ''https://via.placeholder.com/800x600?text=No+Image'' \<and>
        detail_heading v = ''Untitled Recipe'' \<and> detail_author_item v = [])"
proof -
  have h: "\<not> truthy (dict_get untitled_fields ''image'' VNone)"
    "map_of untitled_fields ''title'' = None"
    "dict_get untitled_fields ''author'' VNone = VStr ''Unknown''"
    by (simp_all add: untitled_fields_def dict_get_def)
  have d3: "digits 3 = ''3''" by (simp add: digits.simps)
  from fallback_policy [of untitled_fields 3] h d3
  have "\<exists>c. generate_recipe_card_html (VDict untitled_fields) 3 = Inr (card_template ''3'' c) \<and>
        card_image_url c = ''https://via.placeholder.com/400x300?text=No+Image'' \<and>
        card_title c = ''Untitled Recipe''"
    by auto
  moreover from fallback_policy [of untitled_fields 3] h d3 detail_view_untitled
  have "\<exists>v. generate_recipe_detail_html (VDict untitled_fields) 3 = Inr (detail_template ''3'' v) \<and>
        detail_image_src v = ''https://via.placeholder.com/800x600?text=No+Image'' \<and>
        detail_heading v = ''Untitled Recipe'' \<and> detail_author_item v = []"
    by auto
  ultimately show ?thesis using h by blast
qed

text \<open>
  C9, at two records the generator can receive. The first is the record \<open>scrape_recipe\<close>
  stores for a page whose parser returns \<open>None\<close> as title and as image; the second has
  the empty text as title and as image. In both, the image falls back to the placeholder
  in the card and in the detail panel (\<open>recipe.get('image') or ...\<close>), and the title does
  not fall back: the card and the heading of the panel read \<open>None\<close> for the first record
  and nothing for the second, not \<open>Untitled Recipe\<close>, because
  \<open>recipe.get('title', 'Untitled Recipe')\<close> falls back only when the record has no
  \<open>title\<close> entry at all.
\<close>

theorem title_fallback_missed:
  "scrape_recipe nameless_web (VStr ''https://example.com/pasta'') (VStr ''Pasta night'') =
     Inr nameless_record \<and>
   scraped_ok nameless_record \<and>
   (\<exists>c. generate_recipe_card_html nameless_record 0 = Inr (card_template ''0'' c) \<and>
        card_image_url c = card_placeholder \<and> card_title c = ''None'') \<and>
   (\<exists>v. generate_recipe_detail_html nameless_record 0 = Inr (detail_template ''0'' v) \<and>
        detail_image_src v = detail_placeholder \<and> detail_heading v = ''None'' \<and>
        detail_image_alt v = ''None'') \<and>
   scraped_ok blank_record \<and>
   (\<exists>c. generate_recipe_card_html blank_record 1 = Inr (card_template ''1'' c) \<and>
        card_image_url c = card_placeholder \<and> card_title c = []) \<and>
   (\<exists>v. generate_recipe_detail_html blank_record 1 = Inr (detail_template ''1'' v) \<and>
        detail_image_src v = detail_placeholder \<and> detail_heading v = [] \<and>
        detail_image_alt v = [])"
proof -
  have fetched:
    "scrape_recipe nameless_web (VStr ''https://example.com/pasta'') (VStr ''Pasta night'') =
       Inr nameless_record"
    by (simp add: scrape_recipe_def scrape_recipe_try_def nameless_web_def sample_web_def
        nameless_scraper_def pasta_scraper_def bind_exn_def py_slice_60_def
        raise_for_status_def call_if_hasattr_def nameless_record_def)
  have ok: "scraped_ok nameless_record" "scraped_ok blank_record"
    by (simp_all add: nameless_record_def blank_record_def dict_get_def)
  have d: "digits 0 = ''0''" "digits 1 = ''1''" "digits (Suc 0) = ''1''"
    by (simp_all add: digits.simps)
  let ?c1 = "\<lparr>card_image_url = card_placeholder, card_title = ''None'',
      card_host = ''example.com'', card_time_span = time_span ''20 min'',
      card_yields_span = yields_span (VStr ''4 servings'')\<rparr>"
  have "recipe_card_view nameless_record = Inr ?c1"
    by (simp add: recipe_card_view_def nameless_record_def py_get_def dict_get_def
        bind_exn_def py_str_def py_or_def str_int_def digits.simps)
  then have card1: "\<exists>c. generate_recipe_card_html nameless_record 0 =
          Inr (card_template ''0'' c) \<and>
        card_image_url c = card_placeholder \<and> card_title c = ''None''"
    by (intro exI [of _ ?c1]) (simp add: generate_recipe_card_html_def bind_exn_def d)
  obtain v1 where v1: "recipe_detail_view nameless_record = Inr v1"
    "detail_image_src v1 = detail_placeholder" "detail_heading v1 = ''None''"
    "detail_image_alt v1 = ''None''"
    by (simp add: recipe_detail_view_def nameless_record_def py_get_def dict_get_def
        bind_exn_def py_str_def py_or_def replace_newlines_def)
  then have panel1: "\<exists>v. generate_recipe_detail_html nameless_record 0 =
          Inr (detail_template ''0'' v) \<and>
        detail_image_src v = detail_placeholder \<and> detail_heading v = ''None'' \<and>
        detail_image_alt v = ''None''"
    by (intro exI [of _ v1]) (simp add: generate_recipe_detail_html_def bind_exn_def d)
  let ?c2 = "\<lparr>card_image_url = card_placeholder, card_title = [],
      card_host = ''example.com'', card_time_span = [], card_yields_span = []\<rparr>"
  have "recipe_card_view blank_record = Inr ?c2"
    by (simp add: recipe_card_view_def blank_record_def py_get_def dict_get_def
        bind_exn_def py_str_def py_or_def time_span_def yields_span_def)
  then have card2: "\<exists>c. generate_recipe_card_html blank_record 1 =
          Inr (card_template ''1'' c) \<and>
        card_image_url c = card_placeholder \<and> card_title c = []"
    by (intro exI [of _ ?c2]) (simp add: generate_recipe_card_html_def bind_exn_def d)
  obtain v2 where v2: "recipe_detail_view blank_record = Inr v2"
    "detail_image_src v2 = detail_placeholder" "detail_heading v2 = []"
    "detail_image_alt v2 = []"
    by (simp add: recipe_detail_view_def blank_record_def py_get_def dict_get_def
        bind_exn_def py_str_def py_or_def replace_newlines_def)
  then have panel2: "\<exists>v. generate_recipe_detail_html blank_record 1 =
          Inr (detail_template ''1'' v) \<and>
        detail_image_src v = detail_placeholder \<and> detail_heading v = [] \<and>
        detail_image_alt v = []"
    by (intro exI [of _ v2]) (simp add: generate_recipe_detail_html_def bind_exn_def d)
  from fetched ok card1 panel1 card2 panel2 show ?thesis by blast
qed




text \<open>
  The page puts the cards and the panels of the records in their order, so what holds of
  each card and each panel holds of the page.
\<close>

lemma collect_results:
  "collect rs = Inr xs \<Longrightarrow> rs = map Inr xs"
proof (induction rs arbitrary: xs)
  case Nil
  then show ?case by simp
next
  case (Cons r rs)
  then show ?case by (auto dest!: bind_exn_Inr)
qed

lemma generate_html_parts:
  assumes "generate_html cfg recipes = Inr pg"
  shows "\<exists>cards details.
           map (\<lambda>(i, r). generate_recipe_card_html r i) (enumerate 0 recipes) = map Inr cards \<and>
           map (\<lambda>(i, r). generate_recipe_detail_html r i) (enumerate 0 recipes) = map Inr details \<and>
           page_recipe_cards pg = str_join ''\<newline>'' cards \<and>
           page_recipe_details pg = str_join ''\<newline>'' details"
  using assms
  by (auto simp: generate_html_def dest!: bind_exn_Inr collect_results)

end
